theory Spec2Isabelle
  imports Main
begin

section \<open>Data model\<close>

text \<open>
  The request and response schemas of \<^verbatim>\<open>schemas.py\<close>, and the rows the handlers of
  \<^verbatim>\<open>main.py\<close> read. Python's \<^verbatim>\<open>id\<close> is written \<open>user_id\<close> and \<open>contact_id\<close>
  (\<open>id\<close> is the identity function of HOL), and the \<^verbatim>\<open>email\<close> of a contact is
  \<open>contact_email\<close>, so that \<open>email\<close> is the field of \<^verbatim>\<open>UserBase\<close>. Inheritance between
  the schema classes is record extension.
\<close>

record UserBase =
  email :: string

record UserCreate = UserBase +
  password :: string

text \<open>
  A stored user: the fields of \<^verbatim>\<open>schemas.User\<close> and the password hash that the data
  model of the specification gives to a user.
\<close>

record User = UserBase +
  user_id :: int
  is_active :: bool
  hashed_password :: string

record ContactBase =
  first_name :: string
  last_name :: string
  contact_email :: string
  phone_number :: "string option"
  birthday :: "int option"
  additional_info :: "string option"

text \<open>
  A stored contact: the fields of \<^verbatim>\<open>schemas.Contact\<close> and the \<^verbatim>\<open>owner_id\<close> that
  the handlers compare with the caller's id.
\<close>

record Contact = ContactBase +
  contact_id :: int
  owner_id :: int

text \<open>\<^verbatim>\<open>schemas.Token\<close>; the two tokens are of the type of bearer tokens.\<close>

record 'tok Token =
  access_token :: 'tok
  refresh_token :: 'tok
  token_type :: string

record TokenData =
  token_data_email :: "string option"

text \<open>The form of \<^verbatim>\<open>OAuth2PasswordRequestForm\<close> that the login route reads.\<close>

record OAuth2PasswordRequestForm =
  username :: string
  form_password :: string

text \<open>
  The claim set that \<^verbatim>\<open>jwt.decode\<close> returns: subject, expiry (seconds) and type.
  \<^verbatim>\<open>payload.get("sub")\<close> is \<open>sub p\<close>, which is \<open>None\<close> when the claim is absent; the
  decoder of the library refuses a subject that is not a string, so a decoded subject
  is a string or absent.
\<close>

record payload =
  sub :: "string option"
  exp :: "int option"
  claim_type :: "string option"

text \<open>
  \<^verbatim>\<open>JWTError\<close> and its two subclasses; \<^verbatim>\<open>except JWTError\<close> catches the three.
\<close>

datatype jose_error = JWTError | ExpiredSignatureError | JWTClaimsError

record HTTPException =
  status_code :: nat
  detail :: string
  headers :: "(string \<times> string) list option"

definition HTTP_201_CREATED :: nat where
  "HTTP_201_CREATED = 201"

definition HTTP_401_UNAUTHORIZED :: nat where
  "HTTP_401_UNAUTHORIZED = 401"

section \<open>The collaborators of the handlers\<close>

text \<open>
  \<^verbatim>\<open>main.py\<close> imports \<^verbatim>\<open>crud\<close>, \<^verbatim>\<open>auth\<close> and \<^verbatim>\<open>jose.jwt\<close>; the handlers are
  modelled over any implementation of them, gathered in one record. \<open>'db\<close> is the state
  of the database session and \<open>'tok\<close> the bearer token, both opaque to the handlers.
  A query returns its result; \<^verbatim>\<open>crud.create_user\<close>, \<^verbatim>\<open>crud.create_contact\<close>,
  \<^verbatim>\<open>crud.update_contact\<close> and \<^verbatim>\<open>crud.delete_contact\<close> return the new state of the
  database too. The functions that read the clock take the current time (seconds) as
  an argument. \<^verbatim>\<open>crud.authenticate_user\<close> returns a user or a false value, which is
  \<open>None\<close>; \<^verbatim>\<open>crud.update_contact\<close> returns the updated row, or \<open>None\<close> when it finds
  no row to update.
\<close>

record ('db, 'tok) env =
  SECRET_KEY :: string
  ALGORITHM :: string
  ACCESS_TOKEN_EXPIRE_MINUTES :: int
  jwt_decode :: "int \<Rightarrow> 'tok \<Rightarrow> string \<Rightarrow> string list \<Rightarrow> jose_error + payload"
  auth_create_access_token :: "int \<Rightarrow> (string \<times> string) list \<Rightarrow> int \<Rightarrow> 'tok"
  auth_create_refresh_token :: "int \<Rightarrow> (string \<times> string) list \<Rightarrow> 'tok"
  crud_get_user_by_email :: "'db \<Rightarrow> string \<Rightarrow> User option"
  crud_create_user :: "'db \<Rightarrow> UserCreate \<Rightarrow> 'db \<times> User"
  crud_authenticate_user :: "'db \<Rightarrow> string \<Rightarrow> string \<Rightarrow> User option"
  crud_get_contacts :: "'db \<Rightarrow> int \<Rightarrow> int \<Rightarrow> Contact list"
  crud_get_contact :: "'db \<Rightarrow> int \<Rightarrow> Contact option"
  crud_create_contact :: "'db \<Rightarrow> ContactBase \<Rightarrow> int \<Rightarrow> 'db \<times> Contact"
  crud_update_contact :: "'db \<Rightarrow> ContactBase \<Rightarrow> int \<Rightarrow> 'db \<times> Contact option"
  crud_delete_contact :: "'db \<Rightarrow> int \<Rightarrow> 'db"
  crud_search_contacts :: "'db \<Rightarrow> string \<Rightarrow> Contact list"
  crud_get_upcoming_birthdays :: "'db \<Rightarrow> int \<Rightarrow> Contact list"

text \<open>\<^verbatim>\<open>timedelta(minutes=m)\<close>, in seconds.\<close>

definition timedelta_minutes :: "int \<Rightarrow> int" where
  "timedelta_minutes m = m * 60"

section \<open>The handlers of main.py\<close>

definition credentials_exception :: HTTPException where
  "credentials_exception =
     \<lparr>status_code = HTTP_401_UNAUTHORIZED,
      detail = ''Could not validate credentials'',
      headers = Some [(''WWW-Authenticate'', ''Bearer'')]\<rparr>"

text \<open>
  The \<^verbatim>\<open>try\<close> block of \<^verbatim>\<open>get_current_user\<close>: the decoded subject wrapped in
  \<^verbatim>\<open>TokenData\<close>, or the exception that leaves the block. A missing subject raises
  \<^verbatim>\<open>credentials_exception\<close> inside the block; a \<^verbatim>\<open>JWTError\<close> is caught and raises it.
\<close>

definition decode_token_data ::
  "('db, 'tok) env \<Rightarrow> int \<Rightarrow> 'tok \<Rightarrow> HTTPException + TokenData" where
  "decode_token_data e now token =
     (case jwt_decode e now token (SECRET_KEY e) [ALGORITHM e] of
        Inl err \<Rightarrow> Inl credentials_exception
      | Inr p \<Rightarrow>
          (case sub p of
             None \<Rightarrow> Inl credentials_exception
           | Some em \<Rightarrow> Inr \<lparr>token_data_email = Some em\<rparr>))"

text \<open>
  The rest of \<^verbatim>\<open>get_current_user\<close>: the user of the decoded email, or
  \<^verbatim>\<open>credentials_exception\<close> when there is none. The block above always fills the email
  of \<^verbatim>\<open>token_data\<close> (lemma \<open>decode_token_data_email\<close>), so the branch of an empty one
  is never taken.
\<close>

definition get_current_user ::
  "('db, 'tok) env \<Rightarrow> int \<Rightarrow> 'db \<Rightarrow> 'tok \<Rightarrow> HTTPException + User" where
  "get_current_user e now db token =
     (case decode_token_data e now token of
        Inl ex \<Rightarrow> Inl ex
      | Inr token_data \<Rightarrow>
          (case token_data_email token_data of
             None \<Rightarrow> Inl credentials_exception
           | Some em \<Rightarrow>
               (case crud_get_user_by_email e db em of
                  None \<Rightarrow> Inl credentials_exception
                | Some user \<Rightarrow> Inr user)))"

text \<open>
  The status of the response of a route: that of the \<^verbatim>\<open>HTTPException\<close> raised, or the
  \<^verbatim>\<open>status_code\<close> of the route decorator when the handler returns.
\<close>

definition response_status :: "nat \<Rightarrow> HTTPException + 'a \<Rightarrow> nat" where
  "response_status ok r = (case r of Inl ex \<Rightarrow> status_code ex | Inr v \<Rightarrow> ok)"

text \<open>
  A handler that writes to the database returns the state of the database with its
  result; a raised exception leaves the state it was raised in.
\<close>

definition create_user ::
  "('db, 'tok) env \<Rightarrow> UserCreate \<Rightarrow> 'db \<Rightarrow> 'db \<times> (HTTPException + User)" where
  "create_user e user db =
     (case crud_get_user_by_email e db (email user) of
        Some db_user \<Rightarrow>
          (db, Inl \<lparr>status_code = 409, detail = ''Email already registered'', headers = None\<rparr>)
      | None \<Rightarrow> (let (db', created) = crud_create_user e db user in (db', Inr created)))"

text \<open>The decorator of \<^verbatim>\<open>create_user\<close>: \<^verbatim>\<open>status_code=status.HTTP_201_CREATED\<close>.\<close>

definition create_user_status :: "HTTPException + User \<Rightarrow> nat" where
  "create_user_status r = response_status HTTP_201_CREATED r"

definition login_for_access_token ::
  "('db, 'tok) env \<Rightarrow> int \<Rightarrow> OAuth2PasswordRequestForm \<Rightarrow> 'db \<Rightarrow> HTTPException + 'tok Token" where
  "login_for_access_token e now form_data db =
     (case crud_authenticate_user e db (username form_data) (form_password form_data) of
        None \<Rightarrow>
          Inl \<lparr>status_code = HTTP_401_UNAUTHORIZED,
               detail = ''Incorrect email or password'',
               headers = Some [(''WWW-Authenticate'', ''Bearer'')]\<rparr>
      | Some user \<Rightarrow>
          (let access_token_expires = timedelta_minutes (ACCESS_TOKEN_EXPIRE_MINUTES e);
               access = auth_create_access_token e now [(''sub'', email user)] access_token_expires;
               refresh = auth_create_refresh_token e now [(''sub'', email user)]
           in Inr \<lparr>access_token = access, refresh_token = refresh, token_type = ''bearer''\<rparr>))"

definition read_contacts ::
  "('db, 'tok) env \<Rightarrow> int \<Rightarrow> int \<Rightarrow> 'db \<Rightarrow> User \<Rightarrow> Contact list" where
  "read_contacts e skip limit db current_user =
     (let contacts = crud_get_contacts e db skip limit
      in filter (\<lambda>contact. owner_id contact = user_id current_user) contacts)"

definition create_contact ::
  "('db, 'tok) env \<Rightarrow> ContactBase \<Rightarrow> 'db \<Rightarrow> User \<Rightarrow> 'db \<times> (HTTPException + Contact)" where
  "create_contact e contact db current_user =
     (let (db', created) = crud_create_contact e db contact (user_id current_user)
      in (db', Inr created))"

definition update_contact ::
  "('db, 'tok) env \<Rightarrow> int \<Rightarrow> ContactBase \<Rightarrow> 'db \<Rightarrow> User \<Rightarrow>
     'db \<times> (HTTPException + Contact option)" where
  "update_contact e cid contact db current_user =
     (let not_found = \<lparr>status_code = 404,
                        detail = ''Contact not found or not authorized to update this contact'',
                        headers = None\<rparr>
      in case crud_get_contact e db cid of
           None \<Rightarrow> (db, Inl not_found)
         | Some db_contact \<Rightarrow>
             if owner_id db_contact \<noteq> user_id current_user then (db, Inl not_found)
             else (let (db', updated) = crud_update_contact e db contact cid
                   in (db', Inr updated)))"

definition delete_contact ::
  "('db, 'tok) env \<Rightarrow> int \<Rightarrow> 'db \<Rightarrow> User \<Rightarrow>
     'db \<times> (HTTPException + (string \<times> string) list)" where
  "delete_contact e cid db current_user =
     (let not_found = \<lparr>status_code = 404,
                        detail = ''Contact not found or not authorized to delete this contact'',
                        headers = None\<rparr>
      in case crud_get_contact e db cid of
           None \<Rightarrow> (db, Inl not_found)
         | Some db_contact \<Rightarrow>
             if owner_id db_contact \<noteq> user_id current_user then (db, Inl not_found)
             else (crud_delete_contact e db cid,
                   Inr [(''message'', ''Contact deleted successfully'')]))"

definition search_contacts ::
  "('db, 'tok) env \<Rightarrow> string \<Rightarrow> 'db \<Rightarrow> User \<Rightarrow> Contact list" where
  "search_contacts e query db current_user =
     (let contacts = crud_search_contacts e db query
      in filter (\<lambda>contact. owner_id contact = user_id current_user) contacts)"

definition upcoming_birthdays ::
  "('db, 'tok) env \<Rightarrow> int \<Rightarrow> 'db \<Rightarrow> User \<Rightarrow> Contact list" where
  "upcoming_birthdays e now db current_user =
     (let contacts = crud_get_upcoming_birthdays e db now
      in filter (\<lambda>contact. owner_id contact = user_id current_user) contacts)"

section \<open>The token service and the store, from the specification\<close>

text \<open>
  \<^verbatim>\<open>auth.py\<close>, \<^verbatim>\<open>crud.py\<close> and \<^verbatim>\<open>models.py\<close> are not among the sources. What the
  specification says of them is modelled in this section; each definition names the
  part it stands for.
\<close>

text \<open>
  Modelled from the spec: the primitives and constants of \<^verbatim>\<open>auth.py\<close> and \<^verbatim>\<open>crud.py\<close>,
  which are missing and which the specification leaves open, as parameters: the
  signature of a claim set under a key ("tokens are signed with a server secret",
  section 4.2), "hash(password) -> hash" and "verify(password, hash) -> bool" (section
  4.1), the rows of the contacts table that the listing returns for \<open>skip\<close> and
  \<open>limit\<close>, the match of a contact with a search query, the test of the birthday window
  (section 6), the secret, the algorithm and the lifetimes of the two kinds of token.
\<close>

record 'sig primitives =
  sign :: "string \<Rightarrow> payload \<Rightarrow> 'sig"
  get_password_hash :: "string \<Rightarrow> string"
  verify_password :: "string \<Rightarrow> string \<Rightarrow> bool"
  page :: "Contact list \<Rightarrow> int \<Rightarrow> int \<Rightarrow> Contact list"
  matches :: "string \<Rightarrow> Contact \<Rightarrow> bool"
  birthday_in_window :: "int \<Rightarrow> Contact \<Rightarrow> bool"
  secret :: string
  algorithm :: string
  access_minutes :: int
  refresh_seconds :: int

text \<open>
  Modelled from the spec: the token, which \<^verbatim>\<open>auth.py\<close> builds and \<^verbatim>\<open>jose.jwt\<close>
  encodes, is "a signed claim set {subject=email, expiry, type=access|refresh}" (section 3).
\<close>

record 'sig signed_token =
  claims :: payload
  signature :: 'sig

text \<open>
  Modelled from the spec: \<^verbatim>\<open>auth.create_access_token\<close> is missing; "issue_access(subject,
  ttl) -> token", "signed with a server secret" (section 4.2). The subject is the
  \<^verbatim>\<open>"sub"\<close> entry of the data and the expiry is the current time plus the lifetime.
\<close>

definition spec_create_access_token ::
  "'sig primitives \<Rightarrow> int \<Rightarrow> (string \<times> string) list \<Rightarrow> int \<Rightarrow> 'sig signed_token" where
  "spec_create_access_token P now data expires_delta =
     (let to_encode = \<lparr>sub = map_of data ''sub'', exp = Some (now + expires_delta),
                        claim_type = Some ''access''\<rparr>
      in \<lparr>claims = to_encode, signature = sign P (secret P) to_encode\<rparr>)"

text \<open>
  Modelled from the spec: \<^verbatim>\<open>auth.create_refresh_token\<close> is missing; "issue_refresh(subject)
  -> token" (section 4.2), a token of type refresh with a lifetime of its own.
\<close>

definition spec_create_refresh_token ::
  "'sig primitives \<Rightarrow> int \<Rightarrow> (string \<times> string) list \<Rightarrow> 'sig signed_token" where
  "spec_create_refresh_token P now data =
     (let to_encode = \<lparr>sub = map_of data ''sub'', exp = Some (now + refresh_seconds P),
                        claim_type = Some ''refresh''\<rparr>
      in \<lparr>claims = to_encode, signature = sign P (secret P) to_encode\<rparr>)"

text \<open>
  Modelled from the spec: the verification of a token, done by \<^verbatim>\<open>jose.jwt.decode\<close> with
  the key and algorithm of \<^verbatim>\<open>auth.py\<close>, both missing; "verify(token) -> subject or fails
  with InvalidToken", "expiry is enforced at verify time" (section 4.2). The signature is
  checked under the key, then the expiry against the clock: a token is expired once
  the current time is past its expiry. The list of algorithms plays no part.
\<close>

definition spec_jwt_decode ::
  "'sig primitives \<Rightarrow> int \<Rightarrow> 'sig signed_token \<Rightarrow> string \<Rightarrow> string list \<Rightarrow>
     jose_error + payload" where
  "spec_jwt_decode P now token key algorithms =
     (if signature token \<noteq> sign P key (claims token) then Inl JWTError
      else case exp (claims token) of
             None \<Rightarrow> Inr (claims token)
           | Some t \<Rightarrow> if t < now then Inl ExpiredSignatureError else Inr (claims token))"

text \<open>
  Modelled from the spec: the tables of \<^verbatim>\<open>models.py\<close>, which is missing; the users and
  the contacts of section 3, in the order of their rows.
\<close>

record store =
  users :: "User list"
  contacts :: "Contact list"

text \<open>
  Modelled from the spec: \<^verbatim>\<open>crud.get_user_by_email\<close> is missing; "looks up the User by
  subject (email)" (section 4.3): the first user of the table with that email.
\<close>

definition spec_get_user_by_email :: "store \<Rightarrow> string \<Rightarrow> User option" where
  "spec_get_user_by_email db em = find (\<lambda>u. email u = em) (users db)"

text \<open>
  Modelled from the spec: the "identifier" (section 3) that the tables of \<^verbatim>\<open>models.py\<close>,
  which is missing, give to a new row: one more than the greatest of the table.
\<close>

definition next_id :: "int list \<Rightarrow> int" where
  "next_id ids = fold max ids 0 + 1"

text \<open>
  Modelled from the spec: \<^verbatim>\<open>crud.create_user\<close> is missing; a user is "created on
  registration" with "identifier, email (unique), password hash, active flag" (section 3).
\<close>

definition spec_create_user :: "'sig primitives \<Rightarrow> store \<Rightarrow> UserCreate \<Rightarrow> store \<times> User" where
  "spec_create_user P db user =
     (let db_user = \<lparr>email = email user, user_id = next_id (map user_id (users db)),
                      is_active = True,
                      hashed_password = get_password_hash P (password user)\<rparr>
      in (db\<lparr>users := users db @ [db_user]\<rparr>, db_user))"

text \<open>
  Modelled from the spec: \<^verbatim>\<open>crud.authenticate_user\<close> is missing; the login goes "Request
  Handler -> Credential Verifier -> Token Service" (section 2), with "verify(password,
  hash) -> bool" (section 4.1): the user of that email, when the password matches its hash.
\<close>

definition spec_authenticate_user ::
  "'sig primitives \<Rightarrow> store \<Rightarrow> string \<Rightarrow> string \<Rightarrow> User option" where
  "spec_authenticate_user P db em pw =
     (case spec_get_user_by_email db em of
        None \<Rightarrow> None
      | Some user \<Rightarrow> if verify_password P pw (hashed_password user) then Some user else None)"

text \<open>
  Modelled from the spec: \<^verbatim>\<open>crud.get_contacts\<close> is missing; the listing of section 6
  returns rows of the contacts table. The specification says nothing of \<open>skip\<close> and
  \<open>limit\<close>, so which rows they select is the parameter \<open>page\<close>.
\<close>

definition spec_get_contacts :: "'sig primitives \<Rightarrow> store \<Rightarrow> int \<Rightarrow> int \<Rightarrow> Contact list" where
  "spec_get_contacts P db skip limit = page P (contacts db) skip limit"

text \<open>
  Modelled from the spec: \<^verbatim>\<open>crud.get_contact\<close> is missing; the first contact of the
  table with that identifier.
\<close>

definition spec_get_contact :: "store \<Rightarrow> int \<Rightarrow> Contact option" where
  "spec_get_contact db cid = find (\<lambda>c. contact_id c = cid) (contacts db)"

text \<open>
  Modelled from the spec: \<^verbatim>\<open>crud.create_contact\<close> is missing; a contact has an
  "identifier, first/last name, email, optional phone, optional birthday, optional notes,
  owning user reference" (section 3).
\<close>

definition spec_create_contact :: "store \<Rightarrow> ContactBase \<Rightarrow> int \<Rightarrow> store \<times> Contact" where
  "spec_create_contact db contact uid =
     (let db_contact = ContactBase.extend contact
            (Contact.fields (next_id (map contact_id (contacts db))) uid)
      in (db\<lparr>contacts := contacts db @ [db_contact]\<rparr>, db_contact))"

text \<open>
  Modelled from the spec: the assignment of \<^verbatim>\<open>crud.update_contact\<close>, which is missing;
  the row \<open>c\<close> with the fields of the request written over its own.
\<close>

definition overwrite :: "ContactBase \<Rightarrow> Contact \<Rightarrow> Contact" where
  "overwrite contact c =
     ContactBase.extend contact (Contact.fields (contact_id c) (owner_id c))"

text \<open>
  Modelled from the spec: \<^verbatim>\<open>crud.update_contact\<close> is missing; the contact of that
  identifier takes the fields of the request and keeps its identifier and its owner.
\<close>

definition spec_update_contact ::
  "store \<Rightarrow> ContactBase \<Rightarrow> int \<Rightarrow> store \<times> Contact option" where
  "spec_update_contact db contact cid =
     (let rows = map (\<lambda>c. if contact_id c = cid then overwrite contact c else c) (contacts db)
      in (db\<lparr>contacts := rows\<rparr>, find (\<lambda>c. contact_id c = cid) rows))"

text \<open>
  Modelled from the spec: \<^verbatim>\<open>crud.delete_contact\<close> is missing; the contact of that
  identifier leaves the table.
\<close>

definition spec_delete_contact :: "store \<Rightarrow> int \<Rightarrow> store" where
  "spec_delete_contact db cid = db\<lparr>contacts := filter (\<lambda>c. contact_id c \<noteq> cid) (contacts db)\<rparr>"

text \<open>
  Modelled from the spec: \<^verbatim>\<open>crud.search_contacts\<close> is missing; the search query (sections
  6 and 8) selects rows of the contacts table, whoever owns them, by a test the
  specification leaves open.
\<close>

definition spec_search_contacts :: "'sig primitives \<Rightarrow> store \<Rightarrow> string \<Rightarrow> Contact list" where
  "spec_search_contacts P db query = filter (matches P query) (contacts db)"

text \<open>
  Modelled from the spec: \<^verbatim>\<open>crud.get_upcoming_birthdays\<close> is missing; the birthday-window
  query (sections 6 and 8) selects rows of the contacts table, whoever owns them, by a
  test of the birthday against the clock that the specification leaves open.
\<close>

definition spec_get_upcoming_birthdays :: "'sig primitives \<Rightarrow> store \<Rightarrow> int \<Rightarrow> Contact list" where
  "spec_get_upcoming_birthdays P db now = filter (birthday_in_window P now) (contacts db)"

text \<open>
  Modelled from the spec: the modules \<^verbatim>\<open>auth\<close>, \<^verbatim>\<open>crud\<close> and \<^verbatim>\<open>jose.jwt\<close> that
  \<^verbatim>\<open>main.py\<close> imports, which are missing, as the definitions above.
\<close>

definition spec_env :: "'sig primitives \<Rightarrow> (store, 'sig signed_token) env" where
  "spec_env P =
     \<lparr>SECRET_KEY = secret P,
      ALGORITHM = algorithm P,
      ACCESS_TOKEN_EXPIRE_MINUTES = access_minutes P,
      jwt_decode = spec_jwt_decode P,
      auth_create_access_token = spec_create_access_token P,
      auth_create_refresh_token = spec_create_refresh_token P,
      crud_get_user_by_email = spec_get_user_by_email,
      crud_create_user = spec_create_user P,
      crud_authenticate_user = spec_authenticate_user P,
      crud_get_contacts = spec_get_contacts P,
      crud_get_contact = spec_get_contact,
      crud_create_contact = spec_create_contact,
      crud_update_contact = spec_update_contact,
      crud_delete_contact = spec_delete_contact,
      crud_search_contacts = spec_search_contacts P,
      crud_get_upcoming_birthdays = spec_get_upcoming_birthdays P\<rparr>"

section \<open>A store and tokens for the examples\<close>

text \<open>
  Concrete primitives: the signature of a claim set is the pair of the key and the
  claim set, the hash of a password is the password after a fixed prefix, the listing
  returns \<open>limit\<close> rows after the first \<open>skip\<close>, a query matches a contact by one of
  its names or its email, and the birthday window is the week that starts now.
\<close>

definition example_primitives :: "(string \<times> payload) primitives" where
  "example_primitives =
     \<lparr>sign = (\<lambda>key p. (key, p)),
      get_password_hash = (\<lambda>pw. ''hash:'' @ pw),
      verify_password = (\<lambda>pw h. h = ''hash:'' @ pw),
      page = (\<lambda>rows skip limit. take (nat limit) (drop (nat skip) rows)),
      matches = (\<lambda>query c. first_name c = query \<or> last_name c = query \<or> contact_email c = query),
      birthday_in_window =
        (\<lambda>now c. case birthday c of None \<Rightarrow> False | Some b \<Rightarrow> now \<le> b \<and> b \<le> now + 604800),
      secret = ''secret'',
      algorithm = ''HS256'',
      access_minutes = 30,
      refresh_seconds = 604800\<rparr>"

definition example_env :: "(store, (string \<times> payload) signed_token) env" where
  "example_env = spec_env example_primitives"

definition alice :: User where
  "alice = \<lparr>email = ''alice@example.com'', user_id = 1, is_active = True,
            hashed_password = ''hash:wonderland''\<rparr>"

definition bob :: User where
  "bob = \<lparr>email = ''bob@example.com'', user_id = 2, is_active = True,
          hashed_password = ''hash:builder''\<rparr>"

definition contact_of :: "int \<Rightarrow> int \<Rightarrow> string \<Rightarrow> Contact" where
  "contact_of cid uid name =
     \<lparr>first_name = name, last_name = ''Doe'', contact_email = name @ ''@example.com'',
      phone_number = None, birthday = Some 100000, additional_info = None,
      contact_id = cid, owner_id = uid\<rparr>"

text \<open>Bob owns the first contact of the table, Alice the two that follow.\<close>

definition example_store :: store where
  "example_store =
     \<lparr>users = [alice, bob],
      contacts = [contact_of 1 2 ''Ann'', contact_of 2 1 ''Ben'', contact_of 3 1 ''Cat'']\<rparr>"

text \<open>A claim set signed under the secret of the examples.\<close>

definition signed :: "payload \<Rightarrow> (string \<times> payload) signed_token" where
  "signed p = \<lparr>claims = p, signature = sign example_primitives (secret example_primitives) p\<rparr>"

text \<open>
  The access token of Alice issued at time 1000 for 1800 seconds, the same token with
  another signature, a signed token without subject, and a signed token whose subject
  is nobody's email.
\<close>

definition alice_token :: "(string \<times> payload) signed_token" where
  "alice_token =
     signed \<lparr>sub = Some ''alice@example.com'', exp = Some 2800, claim_type = Some ''access''\<rparr>"

definition forged_token :: "(string \<times> payload) signed_token" where
  "forged_token = alice_token\<lparr>signature := (''guess'', claims alice_token)\<rparr>"

definition anonymous_token :: "(string \<times> payload) signed_token" where
  "anonymous_token = signed \<lparr>sub = None, exp = Some 2800, claim_type = Some ''access''\<rparr>"

definition stranger_token :: "(string \<times> payload) signed_token" where
  "stranger_token =
     signed \<lparr>sub = Some ''carol@example.com'', exp = Some 2800, claim_type = Some ''access''\<rparr>"

text \<open>
  A request that rewrites a contact, two registrations (a new email and the email of
  Bob), and two login forms for Alice (her password and another one).
\<close>

definition zed :: ContactBase where
  "zed = \<lparr>first_name = ''Zed'', last_name = ''Roe'', contact_email = ''zed@example.com'',
           phone_number = Some ''555'', birthday = None, additional_info = None\<rparr>"

definition carol_request :: UserCreate where
  "carol_request = \<lparr>email = ''carol@example.com'', password = ''tea''\<rparr>"

definition bob_request :: UserCreate where
  "bob_request = \<lparr>email = ''bob@example.com'', password = ''tea''\<rparr>"

definition alice_form :: OAuth2PasswordRequestForm where
  "alice_form = \<lparr>username = ''alice@example.com'', form_password = ''wonderland''\<rparr>"

definition wrong_form :: OAuth2PasswordRequestForm where
  "wrong_form = \<lparr>username = ''alice@example.com'', form_password = ''looking-glass''\<rparr>"

text \<open>
  The refresh token of Alice issued at time 1000 for a week, the answer of the login
  route to her, and her access token with the subject rewritten and the signature kept.
\<close>

definition alice_refresh_token :: "(string \<times> payload) signed_token" where
  "alice_refresh_token =
     signed \<lparr>sub = Some ''alice@example.com'', exp = Some 605800,
             claim_type = Some ''refresh''\<rparr>"

definition alice_tokens :: "(string \<times> payload) signed_token Token" where
  "alice_tokens =
     \<lparr>access_token = alice_token, refresh_token = alice_refresh_token, token_type = ''bearer''\<rparr>"

definition relabelled_token :: "(string \<times> payload) signed_token" where
  "relabelled_token = alice_token\<lparr>claims := claims alice_token\<lparr>sub := Some ''bob@example.com''\<rparr>\<rparr>"

lemmas example_defs =
  example_env_def spec_env_def example_primitives_def alice_def bob_def contact_of_def
  example_store_def signed_def alice_token_def forged_token_def anonymous_token_def
  stranger_token_def zed_def carol_request_def bob_request_def alice_form_def wrong_form_def

lemmas spec_defs =
  spec_create_access_token_def spec_create_refresh_token_def spec_jwt_decode_def
  spec_get_user_by_email_def spec_create_user_def spec_authenticate_user_def
  spec_get_contacts_def spec_get_contact_def spec_create_contact_def overwrite_def
  spec_update_contact_def spec_delete_contact_def spec_search_contacts_def
  spec_get_upcoming_birthdays_def next_id_def

section \<open>The resolution of the caller\<close>

lemma decode_token_data_email:
  "decode_token_data e now token = Inr token_data \<Longrightarrow> token_data_email token_data \<noteq> None"
  by (auto simp: decode_token_data_def split: sum.splits option.splits)

text \<open>\<^verbatim>\<open>get_current_user\<close> as one case analysis, without the intermediate \<^verbatim>\<open>TokenData\<close>.\<close>

lemma get_current_user_cases:
  "get_current_user e now db token =
     (case jwt_decode e now token (SECRET_KEY e) [ALGORITHM e] of
        Inl err \<Rightarrow> Inl credentials_exception
      | Inr p \<Rightarrow>
          (case sub p of
             None \<Rightarrow> Inl credentials_exception
           | Some em \<Rightarrow>
               (case crud_get_user_by_email e db em of
                  None \<Rightarrow> Inl credentials_exception
                | Some user \<Rightarrow> Inr user)))"
  by (simp add: get_current_user_def decode_token_data_def split: sum.splits option.splits)

text \<open>The tokens of the examples, decoded in the example environment.\<close>

lemma ex_decode_forged:
  "jwt_decode example_env 1500 forged_token (SECRET_KEY example_env) [ALGORITHM example_env] =
     Inl JWTError"
  by (simp add: example_defs spec_defs)

lemma ex_decode_expired:
  "jwt_decode example_env 3000 alice_token (SECRET_KEY example_env) [ALGORITHM example_env] =
     Inl ExpiredSignatureError"
  by (simp add: example_defs spec_defs)

lemma ex_decode_alice:
  "jwt_decode example_env 1500 alice_token (SECRET_KEY example_env) [ALGORITHM example_env] =
     Inr (claims alice_token)"
  by (simp add: example_defs spec_defs)

lemma ex_decode_anonymous:
  "jwt_decode example_env 1500 anonymous_token (SECRET_KEY example_env) [ALGORITHM example_env] =
     Inr (claims anonymous_token)"
  by (simp add: example_defs spec_defs)

lemma ex_decode_stranger:
  "jwt_decode example_env 1500 stranger_token (SECRET_KEY example_env) [ALGORITHM example_env] =
     Inr (claims stranger_token)"
  by (simp add: example_defs spec_defs)

lemma ex_sub_alice: "sub (claims alice_token) = Some ''alice@example.com''"
  by (simp add: example_defs)

lemma ex_sub_anonymous: "sub (claims anonymous_token) = None"
  by (simp add: example_defs)

lemma ex_sub_stranger: "sub (claims stranger_token) = Some ''carol@example.com''"
  by (simp add: example_defs)

lemma ex_lookup_alice:
  "crud_get_user_by_email example_env example_store ''alice@example.com'' = Some alice"
  by (simp add: example_defs spec_defs)

lemma ex_lookup_carol:
  "crud_get_user_by_email example_env example_store ''carol@example.com'' = None"
  by (simp add: example_defs spec_defs)

text \<open>
  Claim C4. \<^verbatim>\<open>get_current_user\<close> returns a user exactly when the token decodes, the
  decoded claims have a subject and a stored user has that email. Every other outcome
  is the one \<^verbatim>\<open>credentials_exception\<close>: a decoding error of any kind (\<^verbatim>\<open>JWTError\<close> for a
  bad signature, \<^verbatim>\<open>ExpiredSignatureError\<close> for an expired token), a missing subject, a
  subject that is nobody's email. That exception has status 401 and the header
  \<^verbatim>\<open>WWW-Authenticate: Bearer\<close>.
\<close>

theorem get_current_user_unauthorized:
  "(get_current_user e now db token = Inr user \<longleftrightarrow>
      (\<exists>p em. jwt_decode e now token (SECRET_KEY e) [ALGORITHM e] = Inr p \<and> sub p = Some em \<and>
               crud_get_user_by_email e db em = Some user)) \<and>
   (get_current_user e now db token = Inl ex \<longrightarrow> ex = credentials_exception) \<and>
   (jwt_decode e now token (SECRET_KEY e) [ALGORITHM e] = Inl err \<longrightarrow>
      get_current_user e now db token = Inl credentials_exception) \<and>
   (jwt_decode e now token (SECRET_KEY e) [ALGORITHM e] = Inr p \<and> sub p = None \<longrightarrow>
      get_current_user e now db token = Inl credentials_exception) \<and>
   (jwt_decode e now token (SECRET_KEY e) [ALGORITHM e] = Inr p \<and> sub p = Some em \<and>
    crud_get_user_by_email e db em = None \<longrightarrow>
      get_current_user e now db token = Inl credentials_exception) \<and>
   status_code credentials_exception = 401 \<and>
   headers credentials_exception = Some [(''WWW-Authenticate'', ''Bearer'')]"
  by (auto simp: get_current_user_cases credentials_exception_def HTTP_401_UNAUTHORIZED_def
           split: sum.splits option.splits)

text \<open>
  The four failures and the success of C4 in the example store: a forged signature, an
  expired token, a token without subject, a subject that is nobody's email, and the
  token of Alice before its expiry.
\<close>

theorem get_current_user_unauthorized_witness:
  "jwt_decode example_env 1500 forged_token (SECRET_KEY example_env) [ALGORITHM example_env] =
     Inl JWTError \<and>
   get_current_user example_env 1500 example_store forged_token = Inl credentials_exception \<and>
   jwt_decode example_env 3000 alice_token (SECRET_KEY example_env) [ALGORITHM example_env] =
     Inl ExpiredSignatureError \<and>
   get_current_user example_env 3000 example_store alice_token = Inl credentials_exception \<and>
   jwt_decode example_env 1500 anonymous_token (SECRET_KEY example_env) [ALGORITHM example_env] =
     Inr (claims anonymous_token) \<and>
   sub (claims anonymous_token) = None \<and>
   get_current_user example_env 1500 example_store anonymous_token = Inl credentials_exception \<and>
   jwt_decode example_env 1500 stranger_token (SECRET_KEY example_env) [ALGORITHM example_env] =
     Inr (claims stranger_token) \<and>
   sub (claims stranger_token) = Some ''carol@example.com'' \<and>
   crud_get_user_by_email example_env example_store ''carol@example.com'' = None \<and>
   get_current_user example_env 1500 example_store stranger_token = Inl credentials_exception \<and>
   get_current_user example_env 1500 example_store alice_token = Inr alice"
proof -
  have forged: "get_current_user example_env 1500 example_store forged_token =
      Inl credentials_exception"
    using get_current_user_unauthorized
      [of example_env 1500 example_store forged_token alice credentials_exception JWTError]
      ex_decode_forged
    by blast
  have expired: "get_current_user example_env 3000 example_store alice_token =
      Inl credentials_exception"
    using get_current_user_unauthorized
      [of example_env 3000 example_store alice_token alice credentials_exception
          ExpiredSignatureError]
      ex_decode_expired
    by blast
  have nosub: "get_current_user example_env 1500 example_store anonymous_token =
      Inl credentials_exception"
    using get_current_user_unauthorized
      [of example_env 1500 example_store anonymous_token alice credentials_exception JWTError
          "claims anonymous_token"]
      ex_decode_anonymous ex_sub_anonymous
    by blast
  have unknown: "get_current_user example_env 1500 example_store stranger_token =
      Inl credentials_exception"
    using get_current_user_unauthorized
      [of example_env 1500 example_store stranger_token alice credentials_exception JWTError
          "claims stranger_token" "''carol@example.com''"]
      ex_decode_stranger ex_sub_stranger ex_lookup_carol
    by blast
  have good: "get_current_user example_env 1500 example_store alice_token = Inr alice"
    using get_current_user_unauthorized [of example_env 1500 example_store alice_token alice]
      ex_decode_alice ex_sub_alice ex_lookup_alice
    by blast
  show ?thesis
    by (intro conjI forged expired nosub unknown good ex_decode_forged ex_decode_expired
        ex_decode_anonymous ex_decode_stranger ex_sub_anonymous ex_sub_stranger ex_lookup_carol)
qed

section \<open>Ownership of contacts\<close>

text \<open>The contacts of the example store, as the queries of the example environment see them.\<close>

lemma ex_read_alice:
  "read_contacts example_env 0 10 example_store alice =
     [contact_of 2 1 ''Ben'', contact_of 3 1 ''Cat'']"
  by (simp add: read_contacts_def example_defs spec_defs)

lemma ex_get_contact_1:
  "crud_get_contact example_env example_store 1 = Some (contact_of 1 2 ''Ann'')"
  by (simp add: example_defs spec_defs)

lemma ex_get_contact_2:
  "crud_get_contact example_env example_store 2 = Some (contact_of 2 1 ''Ben'')"
  by (simp add: example_defs spec_defs)

lemma ex_get_contact_7: "crud_get_contact example_env example_store 7 = None"
  by (simp add: example_defs spec_defs)

lemma ex_owner_ann: "owner_id (contact_of 1 2 ''Ann'') \<noteq> user_id alice"
  by (simp add: example_defs)

lemma ex_owner_ben: "owner_id (contact_of 2 1 ''Ben'') = user_id alice"
  by (simp add: example_defs)

text \<open>
  Two facts on lists: a map that changes only elements outside \<open>P\<close>, into elements
  outside \<open>P\<close>, and a filter that removes only elements outside \<open>P\<close>, leave the
  elements of \<open>P\<close> as they were.
\<close>

lemma filter_map_frame:
  "(\<forall>x \<in> set xs. g x = x \<or> (\<not> P x \<and> \<not> P (g x))) \<Longrightarrow> filter P (map g xs) = filter P xs"
  by (induction xs) auto

lemma filter_filter_frame:
  "(\<forall>x \<in> set xs. \<not> Q x \<longrightarrow> \<not> P x) \<Longrightarrow> filter P (filter Q xs) = filter P xs"
  by (induction xs) auto

text \<open>
  In a table whose identifiers are distinct, the row that the modelled
  \<^verbatim>\<open>crud.get_contact\<close> finds for an identifier is the only row with that identifier.
\<close>

lemma distinct_ids_same_row:
  assumes "distinct (map contact_id rows)"
      and "find (\<lambda>c. contact_id c = cid) rows = Some found"
      and "r \<in> set rows" and "contact_id r = cid"
  shows "r = found"
proof -
  from assms(2) have "found \<in> set rows" and "contact_id found = cid"
    by (auto simp: find_Some_iff)
  with assms(1,3,4) show ?thesis
    by (auto simp: distinct_map dest: inj_onD)
qed

text \<open>The modelled update keeps the owner and the identifier of a row.\<close>

lemma owner_id_overwrite: "owner_id (overwrite contact c) = owner_id c"
  by (simp add: overwrite_def ContactBase.extend_def Contact.fields_def)

lemma contact_id_overwrite: "contact_id (overwrite contact c) = contact_id c"
  by (simp add: overwrite_def ContactBase.extend_def Contact.fields_def)

text \<open>
  The modelled \<^verbatim>\<open>crud.update_contact\<close> and \<^verbatim>\<open>crud.delete_contact\<close>, called for an
  identifier whose contact is owned by \<open>uid\<close>, leave the rows of every other owner as
  they were.
\<close>

lemma spec_update_contact_frame:
  assumes "distinct (map contact_id (contacts db))"
      and "spec_get_contact db cid = Some found" and "owner_id found = uid"
  shows "filter (\<lambda>c. owner_id c \<noteq> uid) (contacts (fst (spec_update_contact db contact cid))) =
         filter (\<lambda>c. owner_id c \<noteq> uid) (contacts db)"
proof -
  have "\<forall>r \<in> set (contacts db).
      (if contact_id r = cid then overwrite contact r else r) = r \<or>
      (\<not> owner_id r \<noteq> uid \<and>
       \<not> owner_id (if contact_id r = cid then overwrite contact r else r) \<noteq> uid)"
  proof
    fix r
    assume r: "r \<in> set (contacts db)"
    show "(if contact_id r = cid then overwrite contact r else r) = r \<or>
      (\<not> owner_id r \<noteq> uid \<and>
       \<not> owner_id (if contact_id r = cid then overwrite contact r else r) \<noteq> uid)"
    proof (cases "contact_id r = cid")
      case True
      with assms r have "r = found"
        by (auto simp: spec_get_contact_def intro: distinct_ids_same_row)
      with assms(3) True show ?thesis
        by (simp add: owner_id_overwrite)
    next
      case False
      then show ?thesis by simp
    qed
  qed
  then show ?thesis
    by (simp add: spec_update_contact_def Let_def filter_map_frame)
qed

lemma spec_delete_contact_frame:
  assumes "distinct (map contact_id (contacts db))"
      and "spec_get_contact db cid = Some found" and "owner_id found = uid"
  shows "filter (\<lambda>c. owner_id c \<noteq> uid) (contacts (spec_delete_contact db cid)) =
         filter (\<lambda>c. owner_id c \<noteq> uid) (contacts db)"
proof -
  have "\<forall>r \<in> set (contacts db). \<not> contact_id r \<noteq> cid \<longrightarrow> \<not> owner_id r \<noteq> uid"
  proof (intro ballI impI)
    fix r
    assume "r \<in> set (contacts db)" and "\<not> contact_id r \<noteq> cid"
    with assms have "r = found"
      by (auto simp: spec_get_contact_def intro: distinct_ids_same_row)
    with assms(3) show "\<not> owner_id r \<noteq> uid"
      by simp
  qed
  moreover have "contacts (spec_delete_contact db cid) =
      filter (\<lambda>c. contact_id c \<noteq> cid) (contacts db)"
    by (simp add: spec_delete_contact_def)
  ultimately show ?thesis
    by (simp only: filter_filter_frame)
qed

text \<open>
  So do the handlers \<^verbatim>\<open>update_contact\<close> and \<^verbatim>\<open>delete_contact\<close> over the modelled store,
  for every identifier: they refuse, or they reach the two functions above.
\<close>

lemma update_contact_foreign_rows:
  assumes "distinct (map contact_id (contacts db))"
  shows "filter (\<lambda>c. owner_id c \<noteq> user_id u)
           (contacts (fst (update_contact (spec_env P) cid contact db u))) =
         filter (\<lambda>c. owner_id c \<noteq> user_id u) (contacts db)"
proof (cases "spec_get_contact db cid")
  case None
  then show ?thesis
    by (simp add: update_contact_def spec_env_def)
next
  case (Some found)
  show ?thesis
  proof (cases "owner_id found = user_id u")
    case True
    with Some have "update_contact (spec_env P) cid contact db u =
        (fst (spec_update_contact db contact cid), Inr (snd (spec_update_contact db contact cid)))"
      by (simp add: update_contact_def spec_env_def split: prod.splits)
    with spec_update_contact_frame [OF assms Some True] show ?thesis
      by simp
  next
    case False
    with Some show ?thesis
      by (simp add: update_contact_def spec_env_def)
  qed
qed

lemma delete_contact_foreign_rows:
  assumes "distinct (map contact_id (contacts db))"
  shows "filter (\<lambda>c. owner_id c \<noteq> user_id u)
           (contacts (fst (delete_contact (spec_env P) cid db u))) =
         filter (\<lambda>c. owner_id c \<noteq> user_id u) (contacts db)"
proof (cases "spec_get_contact db cid")
  case None
  then show ?thesis
    by (simp add: delete_contact_def spec_env_def)
next
  case (Some found)
  show ?thesis
  proof (cases "owner_id found = user_id u")
    case True
    with Some have "delete_contact (spec_env P) cid db u =
        (spec_delete_contact db cid, Inr [(''message'', ''Contact deleted successfully'')])"
      by (simp add: delete_contact_def spec_env_def)
    with spec_delete_contact_frame [OF assms Some True] show ?thesis
      by simp
  next
    case False
    with Some show ?thesis
      by (simp add: delete_contact_def spec_env_def)
  qed
qed

text \<open>
  Distinct identifiers are an invariant of the modelled store: the three functions that
  write to the contacts table keep them distinct.
\<close>

lemma less_next_id:
  assumes "x \<in> set ids"
  shows "x < next_id ids"
proof -
  from assms have "x \<le> Max (set (0 # ids))"
    by (intro Max_ge) auto
  also have "\<dots> = fold max ids 0"
    by (rule Max.set_eq_fold)
  finally show ?thesis
    by (simp add: next_id_def)
qed

lemma spec_create_contact_distinct:
  assumes "distinct (map contact_id (contacts db))"
  shows "distinct (map contact_id (contacts (fst (spec_create_contact db contact uid))))"
proof -
  have "next_id (map contact_id (contacts db)) \<notin> set (map contact_id (contacts db))"
    using less_next_id [of "next_id (map contact_id (contacts db))" "map contact_id (contacts db)"]
    by auto
  with assms show ?thesis
    by (simp add: spec_create_contact_def Let_def ContactBase.extend_def Contact.fields_def)
qed

lemma spec_update_contact_distinct:
  assumes "distinct (map contact_id (contacts db))"
  shows "distinct (map contact_id (contacts (fst (spec_update_contact db contact cid))))"
proof -
  have rows: "contacts (fst (spec_update_contact db contact cid)) =
      map (\<lambda>c. if contact_id c = cid then overwrite contact c else c) (contacts db)"
    by (simp add: spec_update_contact_def Let_def)
  have ids: "map contact_id
      (map (\<lambda>c. if contact_id c = cid then overwrite contact c else c) (contacts db)) =
      map contact_id (contacts db)"
    by (simp add: contact_id_overwrite)
  from assms show ?thesis
    by (simp only: rows ids)
qed

lemma spec_delete_contact_distinct:
  assumes "distinct (map contact_id (contacts db))"
  shows "distinct (map contact_id (contacts (spec_delete_contact db cid)))"
  using assms by (simp add: spec_delete_contact_def distinct_map_filter)

lemma ex_distinct_ids: "distinct (map contact_id (contacts example_store))"
  by (simp add: example_defs)

lemma ex_ann_stored: "contact_of 1 2 ''Ann'' \<in> set (contacts example_store)"
  by (simp add: example_defs)

text \<open>
  Claim C1. Whatever the store and the implementation of \<^verbatim>\<open>crud\<close>, every contact that
  \<^verbatim>\<open>read_contacts\<close> returns is owned by the caller: the result is the rows of
  \<^verbatim>\<open>crud.get_contacts\<close> filtered by \<open>owner_id = current_user.id\<close>, so a contact of
  another user is never in it. When the contact that \<^verbatim>\<open>crud.get_contact\<close> finds for the
  identifier is owned by another user, \<^verbatim>\<open>update_contact\<close> and \<^verbatim>\<open>delete_contact\<close>
  raise their 404 and leave the database as it was; when it finds none they leave the
  database as it was too; when it finds a contact of the caller they call
  \<^verbatim>\<open>crud.update_contact\<close> and \<^verbatim>\<open>crud.delete_contact\<close> with that same identifier and
  return what these return. In the modelled store with distinct identifiers, whatever
  the identifier of the request, the contacts of the other users are the same rows
  after \<^verbatim>\<open>update_contact\<close> and after \<^verbatim>\<open>delete_contact\<close> as before: a contact of another
  user is still in the table, unchanged.
\<close>

theorem contacts_owner_isolation:
  "(\<forall>c \<in> set (read_contacts e skip limit db0 u). owner_id c = user_id u) \<and>
   read_contacts e skip limit db0 u =
     filter (\<lambda>c. owner_id c = user_id u) (crud_get_contacts e db0 skip limit) \<and>
   (owner_id c \<noteq> user_id u \<longrightarrow> c \<notin> set (read_contacts e skip limit db0 u)) \<and>
   (crud_get_contact e db0 cid = Some c \<and> owner_id c \<noteq> user_id u \<longrightarrow>
      update_contact e cid contact db0 u =
        (db0, Inl \<lparr>status_code = 404,
                   detail = ''Contact not found or not authorized to update this contact'',
                   headers = None\<rparr>) \<and>
      delete_contact e cid db0 u =
        (db0, Inl \<lparr>status_code = 404,
                   detail = ''Contact not found or not authorized to delete this contact'',
                   headers = None\<rparr>)) \<and>
   (crud_get_contact e db0 cid = None \<longrightarrow>
      fst (update_contact e cid contact db0 u) = db0 \<and>
      fst (delete_contact e cid db0 u) = db0) \<and>
   (crud_get_contact e db0 cid = Some c \<and> owner_id c = user_id u \<longrightarrow>
      update_contact e cid contact db0 u =
        (fst (crud_update_contact e db0 contact cid),
         Inr (snd (crud_update_contact e db0 contact cid))) \<and>
      delete_contact e cid db0 u =
        (crud_delete_contact e db0 cid, Inr [(''message'', ''Contact deleted successfully'')])) \<and>
   (distinct (map contact_id (contacts db)) \<longrightarrow>
      filter (\<lambda>r. owner_id r \<noteq> user_id u)
        (contacts (fst (update_contact (spec_env P) cid contact db u))) =
      filter (\<lambda>r. owner_id r \<noteq> user_id u) (contacts db) \<and>
      filter (\<lambda>r. owner_id r \<noteq> user_id u)
        (contacts (fst (delete_contact (spec_env P) cid db u))) =
      filter (\<lambda>r. owner_id r \<noteq> user_id u) (contacts db)) \<and>
   (distinct (map contact_id (contacts db)) \<and> c \<in> set (contacts db) \<and>
    owner_id c \<noteq> user_id u \<longrightarrow>
      c \<in> set (contacts (fst (update_contact (spec_env P) cid contact db u))) \<and>
      c \<in> set (contacts (fst (delete_contact (spec_env P) cid db u))))"
proof (intro conjI impI ballI)
  show "read_contacts e skip limit db0 u =
     filter (\<lambda>c. owner_id c = user_id u) (crud_get_contacts e db0 skip limit)"
    by (simp add: read_contacts_def)
  then show "owner_id c' = user_id u" if "c' \<in> set (read_contacts e skip limit db0 u)" for c'
    using that by simp
  show "c \<notin> set (read_contacts e skip limit db0 u)" if "owner_id c \<noteq> user_id u"
    using that by (simp add: read_contacts_def)
next
  assume "crud_get_contact e db0 cid = Some c \<and> owner_id c \<noteq> user_id u"
  then show "update_contact e cid contact db0 u =
        (db0, Inl \<lparr>status_code = 404,
                   detail = ''Contact not found or not authorized to update this contact'',
                   headers = None\<rparr>)"
    and "delete_contact e cid db0 u =
        (db0, Inl \<lparr>status_code = 404,
                   detail = ''Contact not found or not authorized to delete this contact'',
                   headers = None\<rparr>)"
    by (simp_all add: update_contact_def delete_contact_def)
next
  assume "crud_get_contact e db0 cid = None"
  then show "fst (update_contact e cid contact db0 u) = db0"
    and "fst (delete_contact e cid db0 u) = db0"
    by (simp_all add: update_contact_def delete_contact_def)
next
  assume "crud_get_contact e db0 cid = Some c \<and> owner_id c = user_id u"
  then show "update_contact e cid contact db0 u =
        (fst (crud_update_contact e db0 contact cid),
         Inr (snd (crud_update_contact e db0 contact cid)))"
    and "delete_contact e cid db0 u =
        (crud_delete_contact e db0 cid, Inr [(''message'', ''Contact deleted successfully'')])"
    by (simp_all add: update_contact_def delete_contact_def split: prod.splits)
next
  assume "distinct (map contact_id (contacts db))"
  then show "filter (\<lambda>r. owner_id r \<noteq> user_id u)
        (contacts (fst (update_contact (spec_env P) cid contact db u))) =
      filter (\<lambda>r. owner_id r \<noteq> user_id u) (contacts db)"
    and "filter (\<lambda>r. owner_id r \<noteq> user_id u)
        (contacts (fst (delete_contact (spec_env P) cid db u))) =
      filter (\<lambda>r. owner_id r \<noteq> user_id u) (contacts db)"
    by (rule update_contact_foreign_rows, rule delete_contact_foreign_rows)
next
  assume a: "distinct (map contact_id (contacts db)) \<and> c \<in> set (contacts db) \<and>
    owner_id c \<noteq> user_id u"
  then have "c \<in> set (filter (\<lambda>r. owner_id r \<noteq> user_id u) (contacts db))"
    by simp
  with a have "c \<in> set (filter (\<lambda>r. owner_id r \<noteq> user_id u)
        (contacts (fst (update_contact (spec_env P) cid contact db u))))"
    and "c \<in> set (filter (\<lambda>r. owner_id r \<noteq> user_id u)
        (contacts (fst (delete_contact (spec_env P) cid db u))))"
    by (simp_all only: update_contact_foreign_rows delete_contact_foreign_rows)
  then show "c \<in> set (contacts (fst (update_contact (spec_env P) cid contact db u)))"
    and "c \<in> set (contacts (fst (delete_contact (spec_env P) cid db u)))"
    by simp_all
qed

text \<open>
  C1 in the example store: Alice lists her two contacts and not the contact of Bob,
  which is in the window of the query; her update and her delete of it are refused,
  as they are for an identifier that no contact has; her update and her delete of her
  own contact 2 reach \<^verbatim>\<open>crud\<close> with the identifier 2 and leave the contact of Bob in the
  table.
\<close>

theorem contacts_owner_isolation_witness:
  "contact_of 1 2 ''Ann'' \<in> set (crud_get_contacts example_env example_store 0 10) \<and>
   crud_get_contact example_env example_store 1 = Some (contact_of 1 2 ''Ann'') \<and>
   owner_id (contact_of 1 2 ''Ann'') \<noteq> user_id alice \<and>
   contact_of 2 1 ''Ben'' \<in> set (read_contacts example_env 0 10 example_store alice) \<and>
   owner_id (contact_of 2 1 ''Ben'') = user_id alice \<and>
   contact_of 1 2 ''Ann'' \<notin> set (read_contacts example_env 0 10 example_store alice) \<and>
   fst (update_contact example_env 1 zed example_store alice) = example_store \<and>
   fst (delete_contact example_env 1 example_store alice) = example_store \<and>
   crud_get_contact example_env example_store 7 = None \<and>
   fst (update_contact example_env 7 zed example_store alice) = example_store \<and>
   fst (delete_contact example_env 7 example_store alice) = example_store \<and>
   crud_get_contact example_env example_store 2 = Some (contact_of 2 1 ''Ben'') \<and>
   update_contact example_env 2 zed example_store alice =
     (fst (crud_update_contact example_env example_store zed 2),
      Inr (snd (crud_update_contact example_env example_store zed 2))) \<and>
   delete_contact example_env 2 example_store alice =
     (crud_delete_contact example_env example_store 2,
      Inr [(''message'', ''Contact deleted successfully'')]) \<and>
   distinct (map contact_id (contacts example_store)) \<and>
   contact_of 1 2 ''Ann'' \<in> set (contacts example_store) \<and>
   contact_of 1 2 ''Ann'' \<in>
     set (contacts (fst (update_contact example_env 2 zed example_store alice))) \<and>
   contact_of 1 2 ''Ann'' \<in>
     set (contacts (fst (delete_contact example_env 2 example_store alice))) \<and>
   contacts (fst (delete_contact example_env 2 example_store alice)) =
     [contact_of 1 2 ''Ann'', contact_of 3 1 ''Cat'']"
proof -
  note foreign = contacts_owner_isolation
    [of example_env 0 10 example_store alice "contact_of 1 2 ''Ann''" 1 zed]
  note missing = contacts_owner_isolation
    [of example_env 0 10 example_store alice "contact_of 1 2 ''Ann''" 7 zed]
  note own = contacts_owner_isolation
    [of example_env 0 10 example_store alice "contact_of 2 1 ''Ben''" 2 zed]
  note kept = contacts_owner_isolation
    [of example_env 0 10 example_store alice "contact_of 1 2 ''Ann''" 2 zed example_store
        example_primitives, folded example_env_def]
  note owned = foreign [THEN conjunct1]
  note hidden = foreign [THEN conjunct2, THEN conjunct2, THEN conjunct1, rule_format,
    OF ex_owner_ann]
  note refused = foreign [THEN conjunct2, THEN conjunct2, THEN conjunct2, THEN conjunct1,
    rule_format, OF conjI, OF ex_get_contact_1 ex_owner_ann]
  note absent = missing [THEN conjunct2, THEN conjunct2, THEN conjunct2, THEN conjunct2,
    THEN conjunct1, rule_format, OF ex_get_contact_7]
  note accepted = own [THEN conjunct2, THEN conjunct2, THEN conjunct2, THEN conjunct2,
    THEN conjunct2, THEN conjunct1, rule_format, OF conjI, OF ex_get_contact_2 ex_owner_ben]
  note still = kept [THEN conjunct2, THEN conjunct2, THEN conjunct2, THEN conjunct2,
    THEN conjunct2, THEN conjunct2, THEN conjunct2, rule_format, OF conjI,
    OF ex_distinct_ids conjI, OF ex_ann_stored ex_owner_ann]
  have window: "contact_of 1 2 ''Ann'' \<in> set (crud_get_contacts example_env example_store 0 10)"
    by (simp add: example_defs spec_defs)
  have listed: "contact_of 2 1 ''Ben'' \<in> set (read_contacts example_env 0 10 example_store alice)"
    by (simp add: ex_read_alice)
  note mine = owned [THEN bspec, OF listed]
  have upd: "fst (update_contact example_env 1 zed example_store alice) = example_store"
    by (simp only: refused [THEN conjunct1] fst_conv)
  have del: "fst (delete_contact example_env 1 example_store alice) = example_store"
    by (simp only: refused [THEN conjunct2] fst_conv)
  have rest: "contacts (fst (delete_contact example_env 2 example_store alice)) =
     [contact_of 1 2 ''Ann'', contact_of 3 1 ''Cat'']"
    by (simp only: accepted [THEN conjunct2] fst_conv) (simp add: example_defs spec_defs)
  show ?thesis
    by (intro conjI window ex_get_contact_1 ex_owner_ann listed mine hidden upd del
        ex_get_contact_7 absent [THEN conjunct1] absent [THEN conjunct2] ex_get_contact_2
        accepted [THEN conjunct1] accepted [THEN conjunct2] ex_distinct_ids ex_ann_stored
        still [THEN conjunct1] still [THEN conjunct2] rest)
qed

text \<open>
  Claim C7. Whatever the store, the query and the implementation of the two queries,
  every contact that \<^verbatim>\<open>search_contacts\<close> and \<^verbatim>\<open>upcoming_birthdays\<close> return is owned
  by the caller: each result is the rows of its query filtered by
  \<open>owner_id = current_user.id\<close>.
\<close>

theorem queries_owner_scoped:
  "(\<forall>c \<in> set (search_contacts e query db u). owner_id c = user_id u) \<and>
   (\<forall>c \<in> set (upcoming_birthdays e now db u). owner_id c = user_id u) \<and>
   search_contacts e query db u =
     filter (\<lambda>c. owner_id c = user_id u) (crud_search_contacts e db query) \<and>
   upcoming_birthdays e now db u =
     filter (\<lambda>c. owner_id c = user_id u) (crud_get_upcoming_birthdays e db now)"
  by (auto simp: search_contacts_def upcoming_birthdays_def Let_def)

lemma ex_search_alice:
  "search_contacts example_env ''Doe'' example_store alice =
     [contact_of 2 1 ''Ben'', contact_of 3 1 ''Cat'']"
  by (simp add: search_contacts_def example_defs spec_defs)

lemma ex_birthdays_alice:
  "upcoming_birthdays example_env 0 example_store alice =
     [contact_of 2 1 ''Ben'', contact_of 3 1 ''Cat'']"
  by (simp add: upcoming_birthdays_def example_defs spec_defs)

text \<open>
  C7 in the example store: both queries select the contact of Bob too, and Alice gets
  her two contacts only.
\<close>

theorem queries_owner_scoped_witness:
  "contact_of 1 2 ''Ann'' \<in> set (crud_search_contacts example_env example_store ''Doe'') \<and>
   contact_of 1 2 ''Ann'' \<in> set (crud_get_upcoming_birthdays example_env example_store 0) \<and>
   contact_of 2 1 ''Ben'' \<in> set (search_contacts example_env ''Doe'' example_store alice) \<and>
   contact_of 3 1 ''Cat'' \<in> set (upcoming_birthdays example_env 0 example_store alice) \<and>
   owner_id (contact_of 2 1 ''Ben'') = user_id alice \<and>
   owner_id (contact_of 3 1 ''Cat'') = user_id alice"
proof -
  note inst = queries_owner_scoped [of example_env "''Doe''" example_store alice 0]
  have s: "contact_of 1 2 ''Ann'' \<in> set (crud_search_contacts example_env example_store ''Doe'')"
    by (simp add: example_defs spec_defs)
  have b: "contact_of 1 2 ''Ann'' \<in> set (crud_get_upcoming_birthdays example_env example_store 0)"
    by (simp add: example_defs spec_defs)
  have ns: "contact_of 2 1 ''Ben'' \<in> set (search_contacts example_env ''Doe'' example_store alice)"
    by (simp add: ex_search_alice)
  have nb: "contact_of 3 1 ''Cat'' \<in> set (upcoming_birthdays example_env 0 example_store alice)"
    by (simp add: ex_birthdays_alice)
  show ?thesis
    by (intro conjI s b ns nb inst [THEN conjunct1, THEN bspec, OF ns]
        inst [THEN conjunct2, THEN conjunct1, THEN bspec, OF nb])
qed

section \<open>Not found\<close>

text \<open>
  Claim C6. \<^verbatim>\<open>update_contact\<close> and \<^verbatim>\<open>delete_contact\<close> raise their 404 exactly when
  \<^verbatim>\<open>crud.get_contact\<close> finds no contact for the identifier or finds one whose owner is
  not the caller, and they raise nothing else. In that case the database is returned
  as it was, and the result is the same whatever \<^verbatim>\<open>crud.update_contact\<close> and
  \<^verbatim>\<open>crud.delete_contact\<close> are: they are not called. When the contact is the caller's,
  the handlers return what the two functions of \<^verbatim>\<open>crud\<close> return.
\<close>

theorem contact_not_found:
  "(snd (update_contact e cid contact db u) =
      Inl \<lparr>status_code = 404,
           detail = ''Contact not found or not authorized to update this contact'',
           headers = None\<rparr> \<longleftrightarrow>
    (crud_get_contact e db cid = None \<or>
     (\<exists>c. crud_get_contact e db cid = Some c \<and> owner_id c \<noteq> user_id u))) \<and>
   (snd (delete_contact e cid db u) =
      Inl \<lparr>status_code = 404,
           detail = ''Contact not found or not authorized to delete this contact'',
           headers = None\<rparr> \<longleftrightarrow>
    (crud_get_contact e db cid = None \<or>
     (\<exists>c. crud_get_contact e db cid = Some c \<and> owner_id c \<noteq> user_id u))) \<and>
   (\<forall>ex. snd (update_contact e cid contact db u) = Inl ex \<or>
         snd (delete_contact e cid db u) = Inl ex \<longrightarrow> status_code ex = 404) \<and>
   (crud_get_contact e db cid = None \<or>
    (\<exists>c. crud_get_contact e db cid = Some c \<and> owner_id c \<noteq> user_id u) \<longrightarrow>
      fst (update_contact e cid contact db u) = db \<and>
      fst (delete_contact e cid db u) = db \<and>
      update_contact (e\<lparr>crud_update_contact := upd\<rparr>) cid contact db u =
        update_contact e cid contact db u \<and>
      delete_contact (e\<lparr>crud_delete_contact := del\<rparr>) cid db u = delete_contact e cid db u) \<and>
   ((\<exists>c. crud_get_contact e db cid = Some c \<and> owner_id c = user_id u) \<longrightarrow>
      update_contact e cid contact db u =
        (fst (crud_update_contact e db contact cid), Inr (snd (crud_update_contact e db contact cid))) \<and>
      delete_contact e cid db u =
        (crud_delete_contact e db cid, Inr [(''message'', ''Contact deleted successfully'')]))"
  by (auto simp: update_contact_def delete_contact_def Let_def
           split: option.splits prod.splits if_splits)

text \<open>
  C6 in the example store: an identifier that no contact has, the contact of Bob, and a
  contact of Alice, which her delete removes.
\<close>

theorem contact_not_found_witness:
  "crud_get_contact example_env example_store 7 = None \<and>
   update_contact example_env 7 zed example_store alice =
     (example_store,
      Inl \<lparr>status_code = 404,
           detail = ''Contact not found or not authorized to update this contact'',
           headers = None\<rparr>) \<and>
   crud_get_contact example_env example_store 1 = Some (contact_of 1 2 ''Ann'') \<and>
   owner_id (contact_of 1 2 ''Ann'') \<noteq> user_id alice \<and>
   delete_contact example_env 1 example_store alice =
     (example_store,
      Inl \<lparr>status_code = 404,
           detail = ''Contact not found or not authorized to delete this contact'',
           headers = None\<rparr>) \<and>
   crud_get_contact example_env example_store 2 = Some (contact_of 2 1 ''Ben'') \<and>
   owner_id (contact_of 2 1 ''Ben'') = user_id alice \<and>
   delete_contact example_env 2 example_store alice =
     (crud_delete_contact example_env example_store 2,
      Inr [(''message'', ''Contact deleted successfully'')]) \<and>
   contact_of 2 1 ''Ben'' \<notin> set (contacts (fst (delete_contact example_env 2 example_store alice)))"
proof -
  note missing = contact_not_found [of example_env 7 zed example_store alice]
  note foreign = contact_not_found [of example_env 1 zed example_store alice]
  note own = contact_not_found [of example_env 2 zed example_store alice]
  have m1: "snd (update_contact example_env 7 zed example_store alice) =
      Inl \<lparr>status_code = 404,
           detail = ''Contact not found or not authorized to update this contact'',
           headers = None\<rparr>"
    using missing [THEN conjunct1] ex_get_contact_7 by blast
  have m2: "fst (update_contact example_env 7 zed example_store alice) = example_store"
    using missing [THEN conjunct2, THEN conjunct2, THEN conjunct2, THEN conjunct1]
      ex_get_contact_7 by blast
  have m: "update_contact example_env 7 zed example_store alice =
     (example_store,
      Inl \<lparr>status_code = 404,
           detail = ''Contact not found or not authorized to update this contact'',
           headers = None\<rparr>)"
    using m1 m2 by (simp add: prod_eq_iff)
  have f1: "snd (delete_contact example_env 1 example_store alice) =
      Inl \<lparr>status_code = 404,
           detail = ''Contact not found or not authorized to delete this contact'',
           headers = None\<rparr>"
    using foreign [THEN conjunct2, THEN conjunct1] ex_get_contact_1 ex_owner_ann by blast
  have f2: "fst (delete_contact example_env 1 example_store alice) = example_store"
    using foreign [THEN conjunct2, THEN conjunct2, THEN conjunct2, THEN conjunct1]
      ex_get_contact_1 ex_owner_ann by blast
  have f: "delete_contact example_env 1 example_store alice =
     (example_store,
      Inl \<lparr>status_code = 404,
           detail = ''Contact not found or not authorized to delete this contact'',
           headers = None\<rparr>)"
    using f1 f2 by (simp add: prod_eq_iff)
  have o: "delete_contact example_env 2 example_store alice =
     (crud_delete_contact example_env example_store 2,
      Inr [(''message'', ''Contact deleted successfully'')])"
    using own [THEN conjunct2, THEN conjunct2, THEN conjunct2, THEN conjunct2]
      ex_get_contact_2 ex_owner_ben by blast
  have gone: "contact_of 2 1 ''Ben'' \<notin>
      set (contacts (fst (delete_contact example_env 2 example_store alice)))"
    by (simp add: o) (simp add: example_defs spec_defs)
  show ?thesis
    by (intro conjI ex_get_contact_7 m ex_get_contact_1 ex_owner_ann f ex_get_contact_2
        ex_owner_ben o gone)
qed

section \<open>Login and registration\<close>

lemma ex_authenticate_alice:
  "crud_authenticate_user example_env example_store (username alice_form)
     (form_password alice_form) = Some alice"
  by (simp add: alice_form_def example_defs spec_defs)

lemma ex_authenticate_wrong:
  "crud_authenticate_user example_env example_store (username wrong_form)
     (form_password wrong_form) = None"
  by (simp add: wrong_form_def example_defs spec_defs)

text \<open>
  Claim C8. When \<^verbatim>\<open>crud.authenticate_user\<close> returns a user for the credentials of the
  form, \<^verbatim>\<open>login_for_access_token\<close> returns an access token and a refresh token made
  for the email of that user, with \<^verbatim>\<open>token_type\<close> \<^verbatim>\<open>"bearer"\<close>; when it returns none,
  the handler raises a 401 with the header \<^verbatim>\<open>WWW-Authenticate: Bearer\<close> and issues
  no token: its result is the same whatever the two constructors of tokens are.
\<close>

theorem login_issues_tokens:
  "(crud_authenticate_user e db (username form_data) (form_password form_data) = Some user \<longrightarrow>
      login_for_access_token e now form_data db =
        Inr \<lparr>access_token = auth_create_access_token e now [(''sub'', email user)]
                               (timedelta_minutes (ACCESS_TOKEN_EXPIRE_MINUTES e)),
             refresh_token = auth_create_refresh_token e now [(''sub'', email user)],
             token_type = ''bearer''\<rparr>) \<and>
   (crud_authenticate_user e db (username form_data) (form_password form_data) = None \<longrightarrow>
      login_for_access_token e now form_data db =
        Inl \<lparr>status_code = 401, detail = ''Incorrect email or password'',
             headers = Some [(''WWW-Authenticate'', ''Bearer'')]\<rparr> \<and>
      login_for_access_token
        (e\<lparr>auth_create_access_token := mk_access, auth_create_refresh_token := mk_refresh\<rparr>)
        now form_data db = login_for_access_token e now form_data db)"
  by (simp add: login_for_access_token_def HTTP_401_UNAUTHORIZED_def Let_def)

text \<open>C8 in the example store: Alice logs in with her password, then with another one.\<close>

theorem login_issues_tokens_witness:
  "crud_authenticate_user example_env example_store (username alice_form)
     (form_password alice_form) = Some alice \<and>
   login_for_access_token example_env 1000 alice_form example_store =
     Inr \<lparr>access_token = auth_create_access_token example_env 1000 [(''sub'', email alice)]
                            (timedelta_minutes (ACCESS_TOKEN_EXPIRE_MINUTES example_env)),
          refresh_token = auth_create_refresh_token example_env 1000 [(''sub'', email alice)],
          token_type = ''bearer''\<rparr> \<and>
   crud_authenticate_user example_env example_store (username wrong_form)
     (form_password wrong_form) = None \<and>
   login_for_access_token example_env 1000 wrong_form example_store =
     Inl \<lparr>status_code = 401, detail = ''Incorrect email or password'',
          headers = Some [(''WWW-Authenticate'', ''Bearer'')]\<rparr>"
proof -
  note good = login_issues_tokens [of example_env example_store alice_form alice 1000,
    THEN conjunct1, rule_format, OF ex_authenticate_alice]
  note bad = login_issues_tokens [of example_env example_store wrong_form alice 1000,
    THEN conjunct2, rule_format, OF ex_authenticate_wrong, THEN conjunct1]
  show ?thesis
    by (intro conjI ex_authenticate_alice good ex_authenticate_wrong bad)
qed

lemma ex_lookup_bob:
  "crud_get_user_by_email example_env example_store (email bob_request) = Some bob"
  by (simp add: bob_request_def example_defs spec_defs)

lemma ex_lookup_carol_request:
  "crud_get_user_by_email example_env example_store (email carol_request) = None"
  by (simp add: carol_request_def example_defs spec_defs)

text \<open>The modelled lookup finds no user exactly when no user of the table has the email.\<close>

lemma spec_get_user_by_email_None:
  "spec_get_user_by_email db em = None \<longleftrightarrow> (\<forall>u \<in> set (users db). email u \<noteq> em)"
  by (auto simp: spec_get_user_by_email_def find_None_iff)

text \<open>
  Claim C5. When \<^verbatim>\<open>crud.get_user_by_email\<close> finds a user with the email of the request,
  \<^verbatim>\<open>create_user\<close> raises a 409, leaves the database as it was and does not call
  \<^verbatim>\<open>crud.create_user\<close> (the result is the same whatever that function is). When it
  finds none, the handler returns the user that \<^verbatim>\<open>crud.create_user\<close> created, with the
  database that function left, and the status of the response is 201. In the modelled
  store: when a user of the table has the email of the request the answer is the 409
  and the table is unchanged; when none has, one user with that email is added to the
  table and returned, with status 201.
\<close>

theorem register_conflict:
  "(crud_get_user_by_email e db0 (email user) = Some db_user \<longrightarrow>
      create_user e user db0 =
        (db0, Inl \<lparr>status_code = 409, detail = ''Email already registered'', headers = None\<rparr>) \<and>
      create_user_status (snd (create_user e user db0)) = 409 \<and>
      create_user (e\<lparr>crud_create_user := create\<rparr>) user db0 = create_user e user db0) \<and>
   (crud_get_user_by_email e db0 (email user) = None \<longrightarrow>
      create_user e user db0 =
        (fst (crud_create_user e db0 user), Inr (snd (crud_create_user e db0 user))) \<and>
      create_user_status (snd (create_user e user db0)) = 201) \<and>
   ((\<exists>u \<in> set (users db). email u = email user) \<longrightarrow>
      create_user (spec_env P) user db =
        (db, Inl \<lparr>status_code = 409, detail = ''Email already registered'', headers = None\<rparr>)) \<and>
   ((\<forall>u \<in> set (users db). email u \<noteq> email user) \<longrightarrow>
      (\<exists>created. create_user (spec_env P) user db =
                    (db\<lparr>users := users db @ [created]\<rparr>, Inr created) \<and>
                  email created = email user) \<and>
      create_user_status (snd (create_user (spec_env P) user db)) = 201)"
proof (intro conjI impI)
  assume found: "crud_get_user_by_email e db0 (email user) = Some db_user"
  then show "create_user e user db0 =
      (db0, Inl \<lparr>status_code = 409, detail = ''Email already registered'', headers = None\<rparr>)"
    by (simp add: create_user_def)
  then show "create_user_status (snd (create_user e user db0)) = 409"
    by (simp add: create_user_status_def response_status_def)
  from found show "create_user (e\<lparr>crud_create_user := create\<rparr>) user db0 = create_user e user db0"
    by (simp add: create_user_def)
next
  assume "crud_get_user_by_email e db0 (email user) = None"
  then show created: "create_user e user db0 =
      (fst (crud_create_user e db0 user), Inr (snd (crud_create_user e db0 user)))"
    by (simp add: create_user_def Let_def split: prod.splits)
  show "create_user_status (snd (create_user e user db0)) = 201"
    by (simp add: created create_user_status_def response_status_def HTTP_201_CREATED_def)
next
  assume "\<exists>u \<in> set (users db). email u = email user"
  then have "spec_get_user_by_email db (email user) \<noteq> None"
    by (simp add: spec_get_user_by_email_None)
  then show "create_user (spec_env P) user db =
      (db, Inl \<lparr>status_code = 409, detail = ''Email already registered'', headers = None\<rparr>)"
    by (auto simp: create_user_def spec_env_def)
next
  assume "\<forall>u \<in> set (users db). email u \<noteq> email user"
  then have none: "spec_get_user_by_email db (email user) = None"
    by (simp add: spec_get_user_by_email_None)
  then show "\<exists>created. create_user (spec_env P) user db =
                    (db\<lparr>users := users db @ [created]\<rparr>, Inr created) \<and>
                  email created = email user"
    by (simp add: create_user_def spec_env_def spec_create_user_def Let_def)
  from none show "create_user_status (snd (create_user (spec_env P) user db)) = 201"
    by (simp add: create_user_def spec_env_def spec_create_user_def Let_def
        create_user_status_def response_status_def HTTP_201_CREATED_def)
qed

text \<open>C5 in the example store: the email of Bob is taken, the email of Carol is not.\<close>

theorem register_conflict_witness:
  "crud_get_user_by_email example_env example_store (email bob_request) = Some bob \<and>
   bob \<in> set (users example_store) \<and> email bob = email bob_request \<and>
   create_user example_env bob_request example_store =
     (example_store,
      Inl \<lparr>status_code = 409, detail = ''Email already registered'', headers = None\<rparr>) \<and>
   create_user_status (snd (create_user example_env bob_request example_store)) = 409 \<and>
   crud_get_user_by_email example_env example_store (email carol_request) = None \<and>
   create_user example_env carol_request example_store =
     (fst (crud_create_user example_env example_store carol_request),
      Inr (snd (crud_create_user example_env example_store carol_request))) \<and>
   create_user_status (snd (create_user example_env carol_request example_store)) = 201 \<and>
   users (fst (create_user example_env carol_request example_store)) =
     [alice, bob,
      \<lparr>email = ''carol@example.com'', user_id = 3, is_active = True,
       hashed_password = ''hash:tea''\<rparr>]"
proof -
  note taken = register_conflict [of example_env example_store bob_request bob,
    THEN conjunct1, rule_format, OF ex_lookup_bob]
  note free = register_conflict [of example_env example_store carol_request bob,
    THEN conjunct2, THEN conjunct1, rule_format, OF ex_lookup_carol_request]
  have stored: "bob \<in> set (users example_store)"
    by (simp add: example_defs)
  have same: "email bob = email bob_request"
    by (simp add: example_defs)
  note refused = register_conflict
    [of example_env example_store bob_request bob _ example_store example_primitives,
     THEN conjunct2, THEN conjunct2, THEN conjunct1, rule_format, OF bexI, OF same stored,
     folded example_env_def]
  have added: "users (fst (create_user example_env carol_request example_store)) =
     [alice, bob,
      \<lparr>email = ''carol@example.com'', user_id = 3, is_active = True,
       hashed_password = ''hash:tea''\<rparr>]"
    by (simp add: free [THEN conjunct1]) (simp add: example_defs spec_defs Let_def)
  show ?thesis
    by (intro conjI ex_lookup_bob stored same refused taken [THEN conjunct2, THEN conjunct1]
        ex_lookup_carol_request free [THEN conjunct1] free [THEN conjunct2] added)
qed

section \<open>The lifetime of a token\<close>

text \<open>The modelled collaborators, field by field.\<close>

lemma spec_env_fields:
  "SECRET_KEY (spec_env P) = secret P"
  "ALGORITHM (spec_env P) = algorithm P"
  "ACCESS_TOKEN_EXPIRE_MINUTES (spec_env P) = access_minutes P"
  "jwt_decode (spec_env P) = spec_jwt_decode P"
  "auth_create_access_token (spec_env P) = spec_create_access_token P"
  "auth_create_refresh_token (spec_env P) = spec_create_refresh_token P"
  "crud_get_user_by_email (spec_env P) = spec_get_user_by_email"
  "crud_authenticate_user (spec_env P) = spec_authenticate_user P"
  "crud_get_contacts (spec_env P) = spec_get_contacts P"
  by (simp_all add: spec_env_def)

text \<open>
  \<^verbatim>\<open>get_current_user\<close> over the modelled token service and store: a token resolves
  when its signature is the signature of its claims under the secret, the clock is not
  past its expiry, it has a subject and a user has that email.
\<close>

lemma spec_get_current_user:
  "get_current_user (spec_env P) now db token =
     (if signature token \<noteq> sign P (secret P) (claims token) then Inl credentials_exception
      else if (case exp (claims token) of None \<Rightarrow> False | Some t \<Rightarrow> t < now)
        then Inl credentials_exception
      else case sub (claims token) of
             None \<Rightarrow> Inl credentials_exception
           | Some em \<Rightarrow>
               (case spec_get_user_by_email db em of
                  None \<Rightarrow> Inl credentials_exception
                | Some user \<Rightarrow> Inr user))"
  by (simp add: get_current_user_cases spec_env_fields spec_jwt_decode_def split: option.splits)

lemma spec_authenticate_user_lookup:
  assumes "spec_authenticate_user P db em pw = Some U"
  shows "spec_get_user_by_email db (email U) = Some U"
proof -
  from assms have found: "spec_get_user_by_email db em = Some U"
    by (auto simp: spec_authenticate_user_def split: option.splits if_splits)
  then have "email U = em"
    by (auto simp: spec_get_user_by_email_def find_Some_iff)
  with found show ?thesis by simp
qed

lemma spec_authenticate_user_stored:
  assumes "spec_authenticate_user P db em pw = Some U"
  shows "U \<in> set (users db)"
proof -
  from assms have "spec_get_user_by_email db em = Some U"
    by (auto simp: spec_authenticate_user_def split: option.splits if_splits)
  then show ?thesis
    by (auto simp: spec_get_user_by_email_def find_Some_iff)
qed

lemma ex_login_alice:
  "login_for_access_token example_env 1000 alice_form example_store = Inr alice_tokens"
  by (simp add: login_for_access_token_def alice_tokens_def alice_refresh_token_def
      timedelta_minutes_def example_defs spec_defs Let_def)

lemma ex_lifetime: "(2800::int) \<le> 1000 + timedelta_minutes (access_minutes example_primitives)"
  by (simp add: timedelta_minutes_def example_defs)

text \<open>
  Claim C2. In the modelled token service and store: when the login authenticates the
  user \<open>U\<close> and answers with tokens, \<open>U\<close> is a user of the store, the subject of the
  access token is the email of \<open>U\<close> and its expiry is the time of the login plus the
  lifetime of access tokens. At any time up to that expiry \<^verbatim>\<open>get_current_user\<close>, given
  the token as issued, returns \<open>U\<close>, in the store of the login and in any store where
  the email of \<open>U\<close> is still the email of \<open>U\<close>; past the expiry it raises
  \<^verbatim>\<open>credentials_exception\<close>.
\<close>

theorem issued_access_token_resolves:
  assumes "crud_authenticate_user (spec_env P) db (username form_data) (form_password form_data)
             = Some U"
      and "login_for_access_token (spec_env P) now form_data db = Inr tokens"
  shows "U \<in> set (users db) \<and>
         sub (claims (access_token tokens)) = Some (email U) \<and>
         exp (claims (access_token tokens)) = Some (now + timedelta_minutes (access_minutes P)) \<and>
         (now' \<le> now + timedelta_minutes (access_minutes P) \<longrightarrow>
            get_current_user (spec_env P) now' db (access_token tokens) = Inr U \<and>
            (\<forall>db'. crud_get_user_by_email (spec_env P) db' (email U) = Some U \<longrightarrow>
               get_current_user (spec_env P) now' db' (access_token tokens) = Inr U)) \<and>
         (now + timedelta_minutes (access_minutes P) < now' \<longrightarrow>
            get_current_user (spec_env P) now' db (access_token tokens) =
              Inl credentials_exception)"
proof -
  from assms(1) have auth: "spec_authenticate_user P db (username form_data) (form_password form_data) = Some U"
    by (simp add: spec_env_fields)
  have tok: "access_token tokens =
      spec_create_access_token P now [(''sub'', email U)] (timedelta_minutes (access_minutes P))"
    using assms by (auto simp: login_for_access_token_def spec_env_fields Let_def)
  have sub: "sub (claims (access_token tokens)) = Some (email U)"
    by (simp add: tok spec_create_access_token_def Let_def)
  have ex: "exp (claims (access_token tokens)) = Some (now + timedelta_minutes (access_minutes P))"
    by (simp add: tok spec_create_access_token_def Let_def)
  have sig: "signature (access_token tokens) = sign P (secret P) (claims (access_token tokens))"
    by (simp add: tok spec_create_access_token_def Let_def)
  have resolve: "get_current_user (spec_env P) now' db' (access_token tokens) = Inr U"
    if "now' \<le> now + timedelta_minutes (access_minutes P)"
      and "spec_get_user_by_email db' (email U) = Some U" for db'
    using that by (simp add: spec_get_current_user sig ex sub)
  have late: "get_current_user (spec_env P) now' db (access_token tokens) =
      Inl credentials_exception"
    if "now + timedelta_minutes (access_minutes P) < now'"
    using that by (simp add: spec_get_current_user ex)
  show ?thesis
    using spec_authenticate_user_stored [OF auth] sub ex resolve late
      spec_authenticate_user_lookup [OF auth]
    by (simp add: spec_env_fields)
qed

text \<open>
  C2 in the example store: Alice logs in at time 1000 and her access token, which lives
  1800 seconds, resolves to her at time 2800.
\<close>

theorem issued_access_token_resolves_witness:
  "crud_authenticate_user example_env example_store (username alice_form)
     (form_password alice_form) = Some alice \<and>
   login_for_access_token example_env 1000 alice_form example_store = Inr alice_tokens \<and>
   (2800::int) \<le> 1000 + timedelta_minutes (access_minutes example_primitives) \<and>
   alice \<in> set (users example_store) \<and>
   sub (claims (access_token alice_tokens)) = Some (email alice) \<and>
   get_current_user example_env 2800 example_store (access_token alice_tokens) = Inr alice"
proof -
  note inst = issued_access_token_resolves
    [of example_primitives example_store alice_form alice 1000 alice_tokens 2800,
     folded example_env_def, OF ex_authenticate_alice ex_login_alice]
  note stored = inst [THEN conjunct1]
  note subject = inst [THEN conjunct2, THEN conjunct1]
  note resolved = inst [THEN conjunct2, THEN conjunct2, THEN conjunct2, THEN conjunct1,
    rule_format, OF ex_lifetime, THEN conjunct1]
  show ?thesis
    by (intro conjI ex_authenticate_alice ex_login_alice ex_lifetime stored subject resolved)
qed

lemma ex_signed_alice:
  "signature alice_token = sign example_primitives (secret example_primitives) (claims alice_token)"
  by (simp add: example_defs)

lemma ex_sign_inj: "inj (sign example_primitives (secret example_primitives))"
  by (simp add: example_defs inj_def)

lemma ex_expired_alice: "exp (claims alice_token) = Some 2800 \<and> (2800::int) < 3000"
  by (simp add: example_defs)

lemma ex_forged_signature:
  "signature forged_token \<noteq> sign example_primitives (secret example_primitives) (claims forged_token)"
  by (simp add: example_defs)

lemma ex_guess: "(''guess'', claims alice_token) \<noteq> signature alice_token"
  by (simp add: example_defs)

lemma ex_relabel: "claims alice_token\<lparr>sub := Some ''bob@example.com''\<rparr> \<noteq> claims alice_token"
  by (simp add: example_defs)

text \<open>
  Claim C3. Whatever the decoder, a token that \<^verbatim>\<open>jwt.decode\<close> refuses makes
  \<^verbatim>\<open>get_current_user\<close> raise \<^verbatim>\<open>credentials_exception\<close>, so no user is returned. In the
  modelled token service the decoder refuses a token whose signature is not the
  signature of its claims under the secret, and a token whose expiry is before the
  current time. A signed token stops verifying when its signature is replaced by another
  one and, if signing under the secret maps different claim sets to different
  signatures, when its claims are replaced by other ones.
\<close>

theorem rejected_token_never_resolves:
  "(jwt_decode e now token0 (SECRET_KEY e) [ALGORITHM e] = Inl err \<longrightarrow>
      get_current_user e now db0 token0 = Inl credentials_exception) \<and>
   (signature token \<noteq> sign P (secret P) (claims token) \<longrightarrow>
      get_current_user (spec_env P) now db token = Inl credentials_exception) \<and>
   (exp (claims token) = Some t \<and> t < now \<longrightarrow>
      get_current_user (spec_env P) now db token = Inl credentials_exception) \<and>
   (signature token = sign P (secret P) (claims token) \<and> s \<noteq> signature token \<longrightarrow>
      get_current_user (spec_env P) now db (token\<lparr>signature := s\<rparr>) =
        Inl credentials_exception) \<and>
   (signature token = sign P (secret P) (claims token) \<and> inj (sign P (secret P)) \<and>
    p \<noteq> claims token \<longrightarrow>
      get_current_user (spec_env P) now db (token\<lparr>claims := p\<rparr>) =
        Inl credentials_exception)"
proof (intro conjI impI)
  assume "jwt_decode e now token0 (SECRET_KEY e) [ALGORITHM e] = Inl err"
  then show "get_current_user e now db0 token0 = Inl credentials_exception"
    by (simp add: get_current_user_cases)
next
  assume "signature token \<noteq> sign P (secret P) (claims token)"
  then show "get_current_user (spec_env P) now db token = Inl credentials_exception"
    by (simp add: spec_get_current_user)
next
  assume "exp (claims token) = Some t \<and> t < now"
  then show "get_current_user (spec_env P) now db token = Inl credentials_exception"
    by (simp add: spec_get_current_user)
next
  assume "signature token = sign P (secret P) (claims token) \<and> s \<noteq> signature token"
  then show "get_current_user (spec_env P) now db (token\<lparr>signature := s\<rparr>) =
      Inl credentials_exception"
    by (auto simp: spec_get_current_user)
next
  assume a: "signature token = sign P (secret P) (claims token) \<and> inj (sign P (secret P)) \<and>
    p \<noteq> claims token"
  then have "sign P (secret P) p \<noteq> sign P (secret P) (claims token)"
    by (auto dest: injD)
  with a show "get_current_user (spec_env P) now db (token\<lparr>claims := p\<rparr>) =
      Inl credentials_exception"
    by (auto simp: spec_get_current_user)
qed

text \<open>
  C3 in the example store: the token of Alice with a guessed signature, after its
  expiry, and with the subject rewritten to the email of Bob under the old signature.
\<close>

theorem rejected_token_never_resolves_witness:
  "jwt_decode example_env 1500 forged_token (SECRET_KEY example_env) [ALGORITHM example_env] =
     Inl JWTError \<and>
   signature forged_token \<noteq>
     sign example_primitives (secret example_primitives) (claims forged_token) \<and>
   get_current_user example_env 1500 example_store forged_token = Inl credentials_exception \<and>
   exp (claims alice_token) = Some 2800 \<and> (2800::int) < 3000 \<and>
   get_current_user example_env 3000 example_store alice_token = Inl credentials_exception \<and>
   signature alice_token =
     sign example_primitives (secret example_primitives) (claims alice_token) \<and>
   inj (sign example_primitives (secret example_primitives)) \<and>
   claims relabelled_token \<noteq> claims alice_token \<and>
   get_current_user example_env 1500 example_store relabelled_token =
     Inl credentials_exception \<and>
   get_current_user example_env 1500 example_store
     (alice_token\<lparr>signature := (''guess'', claims alice_token)\<rparr>) = Inl credentials_exception"
proof -
  note forged = rejected_token_never_resolves
    [of example_env 1500 forged_token JWTError example_store forged_token example_primitives
        example_store, folded example_env_def]
  note expired = rejected_token_never_resolves
    [of example_env 3000 alice_token JWTError example_store alice_token example_primitives
        example_store 2800, folded example_env_def]
  note tampered = rejected_token_never_resolves
    [of example_env 1500 alice_token JWTError example_store alice_token example_primitives
        example_store 2800 "(''guess'', claims alice_token)"
        "claims alice_token\<lparr>sub := Some ''bob@example.com''\<rparr>",
     folded example_env_def relabelled_token_def]
  note a = forged [THEN conjunct2, THEN conjunct1, rule_format, OF ex_forged_signature]
  note b = expired [THEN conjunct2, THEN conjunct2, THEN conjunct1, rule_format, OF ex_expired_alice]
  note c = tampered [THEN conjunct2, THEN conjunct2, THEN conjunct2, THEN conjunct1,
    rule_format, OF conjI, OF ex_signed_alice ex_guess]
  note d = tampered [THEN conjunct2, THEN conjunct2, THEN conjunct2, THEN conjunct2,
    rule_format, OF conjI, OF ex_signed_alice conjI, OF ex_sign_inj ex_relabel]
  have relabelled: "claims relabelled_token \<noteq> claims alice_token"
    using ex_relabel by (simp add: relabelled_token_def)
  show ?thesis
    by (intro conjI ex_decode_forged ex_forged_signature a ex_expired_alice [THEN conjunct1]
        ex_expired_alice [THEN conjunct2] b ex_signed_alice ex_sign_inj relabelled d c)
qed

text \<open>
  Claim C10, as stated, fails: a verifying signature and the email of a stored user as
  subject are not enough. The refresh token of Alice has both, and at time 700000, past
  its expiry, \<^verbatim>\<open>get_current_user\<close> raises \<^verbatim>\<open>credentials_exception\<close>.
\<close>

theorem expired_token_valid_signature_counterexample:
  "signature alice_refresh_token =
     sign example_primitives (secret example_primitives) (claims alice_refresh_token) \<and>
   sub (claims alice_refresh_token) = Some (email alice) \<and>
   alice \<in> set (users example_store) \<and>
   crud_get_user_by_email example_env example_store (email alice) = Some alice \<and>
   get_current_user example_env 700000 example_store alice_refresh_token =
     Inl credentials_exception \<and>
   get_current_user example_env 700000 example_store alice_refresh_token \<noteq> Inr alice"
  by (simp add: get_current_user_cases alice_refresh_token_def example_defs spec_defs)

lemma ex_refresh_lifetime: "(2900::int) \<le> 1000 + refresh_seconds example_primitives"
  by (simp add: example_defs)

lemma ex_decode_refresh:
  "jwt_decode example_env 2900 alice_refresh_token (SECRET_KEY example_env) [ALGORITHM example_env]
     = Inr (claims alice_refresh_token)"
  by (simp add: alice_refresh_token_def example_defs spec_defs)

lemma ex_sub_refresh: "sub (claims alice_refresh_token) = Some ''alice@example.com''"
  by (simp add: alice_refresh_token_def example_defs)

text \<open>
  Claim C10, amended. \<^verbatim>\<open>get_current_user\<close> returns the user of the subject of every
  token that \<^verbatim>\<open>jwt.decode\<close> accepts, and its result is the same whatever type the decoded
  claims carry. In the modelled token service a token is accepted when its signature
  verifies under the secret and it is not expired, so the refresh token that the login
  issued for \<open>U\<close>, of type refresh where the access token is of type access, resolves to
  \<open>U\<close> up to its own expiry.
\<close>

theorem token_type_not_inspected:
  "(jwt_decode e now token0 (SECRET_KEY e) [ALGORITHM e] = Inr p \<and> sub p = Some em \<and>
    crud_get_user_by_email e db0 em = Some user \<longrightarrow>
      get_current_user e now db0 token0 = Inr user) \<and>
   get_current_user
     (e\<lparr>jwt_decode := \<lambda>n t k a. map_sum id (\<lambda>q. q\<lparr>claim_type := ty\<rparr>) (jwt_decode e n t k a)\<rparr>)
     now db0 token0 = get_current_user e now db0 token0 \<and>
   (signature token = sign P (secret P) (claims token) \<and>
    \<not> (\<exists>t. exp (claims token) = Some t \<and> t < now) \<and>
    sub (claims token) = Some em \<and>
    crud_get_user_by_email (spec_env P) db em = Some user \<longrightarrow>
      get_current_user (spec_env P) now db token = Inr user) \<and>
   (crud_authenticate_user (spec_env P) db (username form_data) (form_password form_data) = Some U \<and>
    login_for_access_token (spec_env P) issued form_data db = Inr tokens \<and>
    now \<le> issued + refresh_seconds P \<longrightarrow>
      claim_type (claims (refresh_token tokens)) = Some ''refresh'' \<and>
      claim_type (claims (access_token tokens)) = Some ''access'' \<and>
      get_current_user (spec_env P) now db (refresh_token tokens) = Inr U)"
proof (intro conjI impI)
  assume "jwt_decode e now token0 (SECRET_KEY e) [ALGORITHM e] = Inr p \<and> sub p = Some em \<and>
    crud_get_user_by_email e db0 em = Some user"
  then show "get_current_user e now db0 token0 = Inr user"
    by (simp add: get_current_user_cases)
next
  show "get_current_user
     (e\<lparr>jwt_decode := \<lambda>n t k a. map_sum id (\<lambda>q. q\<lparr>claim_type := ty\<rparr>) (jwt_decode e n t k a)\<rparr>)
     now db0 token0 = get_current_user e now db0 token0"
    by (cases "jwt_decode e now token0 (SECRET_KEY e) [ALGORITHM e]")
      (simp_all add: get_current_user_cases split: option.splits)
next
  assume "signature token = sign P (secret P) (claims token) \<and>
    \<not> (\<exists>t. exp (claims token) = Some t \<and> t < now) \<and>
    sub (claims token) = Some em \<and>
    crud_get_user_by_email (spec_env P) db em = Some user"
  then show "get_current_user (spec_env P) now db token = Inr user"
    by (auto simp: spec_get_current_user spec_env_fields split: option.splits)
next
  assume a: "crud_authenticate_user (spec_env P) db (username form_data) (form_password form_data)
      = Some U \<and>
    login_for_access_token (spec_env P) issued form_data db = Inr tokens \<and>
    now \<le> issued + refresh_seconds P"
  then have auth: "spec_authenticate_user P db (username form_data) (form_password form_data) = Some U"
    by (simp add: spec_env_fields)
  from a have acc: "access_token tokens =
      spec_create_access_token P issued [(''sub'', email U)]
        (timedelta_minutes (access_minutes P))"
    by (auto simp: login_for_access_token_def spec_env_fields Let_def)
  from a have tok: "refresh_token tokens = spec_create_refresh_token P issued [(''sub'', email U)]"
    by (auto simp: login_for_access_token_def spec_env_fields Let_def)
  show "claim_type (claims (refresh_token tokens)) = Some ''refresh''"
    by (simp add: tok spec_create_refresh_token_def Let_def)
  show "claim_type (claims (access_token tokens)) = Some ''access''"
    by (simp add: acc spec_create_access_token_def Let_def)
  show "get_current_user (spec_env P) now db (refresh_token tokens) = Inr U"
    using a spec_authenticate_user_lookup [OF auth]
    by (simp add: spec_get_current_user tok spec_create_refresh_token_def Let_def)
qed

text \<open>
  C10 amended, in the example store: at time 2900 the refresh token of Alice resolves to
  her, while her access token of time 1000 is expired.
\<close>

theorem token_type_not_inspected_witness:
  "jwt_decode example_env 2900 alice_refresh_token (SECRET_KEY example_env) [ALGORITHM example_env]
     = Inr (claims alice_refresh_token) \<and>
   sub (claims alice_refresh_token) = Some ''alice@example.com'' \<and>
   crud_get_user_by_email example_env example_store ''alice@example.com'' = Some alice \<and>
   crud_authenticate_user example_env example_store (username alice_form)
     (form_password alice_form) = Some alice \<and>
   login_for_access_token example_env 1000 alice_form example_store = Inr alice_tokens \<and>
   (2900::int) \<le> 1000 + refresh_seconds example_primitives \<and>
   claim_type (claims (refresh_token alice_tokens)) = Some ''refresh'' \<and>
   get_current_user example_env 2900 example_store (refresh_token alice_tokens) = Inr alice \<and>
   get_current_user example_env 2900 example_store alice_refresh_token = Inr alice \<and>
   get_current_user example_env 2900 example_store alice_token = Inl credentials_exception"
proof -
  note inst = token_type_not_inspected
    [of example_env 2900 alice_refresh_token "claims alice_refresh_token" "''alice@example.com''"
        example_store alice "Some ''access''" alice_refresh_token example_primitives example_store
        alice_form alice 1000 alice_tokens, folded example_env_def]
  note direct = inst [THEN conjunct1, rule_format, OF conjI, OF ex_decode_refresh conjI,
      OF ex_sub_refresh ex_lookup_alice]
  note issued = inst [THEN conjunct2, THEN conjunct2, THEN conjunct2, rule_format, OF conjI,
      OF ex_authenticate_alice conjI, OF ex_login_alice ex_refresh_lifetime]
  have late: "get_current_user example_env 2900 example_store alice_token =
      Inl credentials_exception"
    by (simp add: get_current_user_cases example_defs spec_defs)
  show ?thesis
    by (intro conjI ex_decode_refresh ex_sub_refresh ex_lookup_alice ex_authenticate_alice
        ex_login_alice ex_refresh_lifetime issued [THEN conjunct1]
        issued [THEN conjunct2, THEN conjunct2] direct late)
qed

end
